theory Spec2Isabelle
  imports Complex_Main
begin

section \<open>Shared vocabulary\<close>

text \<open>
  The two modules verified here are \<^verbatim>\<open>src/network/p2p.js\<close> (class \<^verbatim>\<open>P2PNetwork\<close>) and
  \<^verbatim>\<open>src/offline/capabilities.js\<close> (class \<^verbatim>\<open>OfflineCapabilities\<close>). Every method is a
  function from the object's state to an outcome and the state after the call; a thrown
  error (a rejected promise for an \<^verbatim>\<open>async\<close> method) is the \<open>Inl\<close> outcome. The state is
  returned on both outcomes, so that what a failing call has mutated can be stated.
  \<^verbatim>\<open>Date.now()\<close> and \<^verbatim>\<open>crypto.randomUUID()\<close> are arguments of the functions that read
  them. The logger has no effect on the state and is not modelled.
\<close>

text \<open>
  The errors of the two modules. The first four are the \<^verbatim>\<open>new Error(...)\<close> of the source,
  named as the design names them:
  \<^verbatim>\<open>'Maximum peer limit reached'\<close>, \<^verbatim>\<open>'Maximum connection limit reached'\<close>,
  \<^verbatim>\<open>'Peer not found'\<close>, \<^verbatim>\<open>'Invalid message format'\<close>.
  \<open>Raised msg\<close> is an error thrown by a collaborator (the WebRTC connection, the transport,
  a peer object, a handler or strategy the class calls) with its message.
\<close>

datatype error =
    PeerLimitExceeded
  | ConnectionLimitExceeded
  | PeerNotFound
  | InvalidMessageFormat
  | Raised string

text \<open>
  A JavaScript \<^verbatim>\<open>Map\<close>: keys in insertion order, each key once. \<^verbatim>\<open>set\<close> on a key that is
  present replaces the value where it stands; on a new key it appends the entry.
\<close>

type_synonym ('k, 'v) jsmap = "('k \<times> 'v) list"

definition jsmap_get :: "('k, 'v) jsmap \<Rightarrow> 'k \<Rightarrow> 'v option" where
  "jsmap_get m k = map_of m k"

fun jsmap_set :: "('k, 'v) jsmap \<Rightarrow> 'k \<Rightarrow> 'v \<Rightarrow> ('k, 'v) jsmap" where
  "jsmap_set [] k v = [(k, v)]"
| "jsmap_set ((k', v') # m) k v =
     (if k' = k then (k, v) # m else (k', v') # jsmap_set m k v)"

definition jsmap_size :: "('k, 'v) jsmap \<Rightarrow> nat" where
  "jsmap_size m = length m"

definition jsmap_keys :: "('k, 'v) jsmap \<Rightarrow> 'k list" where
  "jsmap_keys m = map fst m"

section \<open>The sync engine (\<^verbatim>\<open>src/offline/capabilities.js\<close>)\<close>

type_synonym vvector = "(string \<times> int) list"

text \<open>
  \<^verbatim>\<open>this.syncState\<close> of the constructor: \<^verbatim>\<open>lastSync\<close> is \<^verbatim>\<open>null\<close> until the first pass,
  \<^verbatim>\<open>pendingChanges\<close> is a \<^verbatim>\<open>Set\<close> of item ids, \<^verbatim>\<open>versionVector\<close> a \<^verbatim>\<open>Map\<close> from peer id to
  the vector last seen from that peer.
\<close>

record sync_state =
  lastSync :: "int option"
  syncInProgress :: bool
  pendingChanges :: "string set"
  versionVector :: "(string, vvector) jsmap"

definition initial_sync_state :: sync_state where
  "initial_sync_state =
     \<lparr> lastSync = None, syncInProgress = False, pendingChanges = {}, versionVector = [] \<rparr>"

text \<open>
  A peer handed to \<^verbatim>\<open>syncWithPeers\<close>: its \<^verbatim>\<open>id\<close> and what awaiting its
  \<^verbatim>\<open>getVersionVector()\<close> gives, \<open>Inl msg\<close> when the promise rejects.
\<close>

record sync_peer =
  sp_id :: string
  getVersionVector :: "string + vvector"

text \<open>
  \<^verbatim>\<open>getLocalChanges\<close>, \<^verbatim>\<open>compareVersionVectors\<close>, \<^verbatim>\<open>exchangeChanges\<close> and
  \<^verbatim>\<open>updateVersionVector\<close> are called by \<^verbatim>\<open>syncWithPeers\<close> and defined nowhere in the
  source: they are parameters, each free to fail (\<open>Inl msg\<close>, \<open>Some msg\<close>) and, for the two
  that act on the state, free to change \<^verbatim>\<open>syncState\<close> in any way. Of the diff only
  \<^verbatim>\<open>needsUpdate\<close> is read.
\<close>

record diff =
  needsUpdate :: bool

record strategy =
  getLocalChanges :: "sync_state \<Rightarrow> string + string list"
  compareVersionVectors :: "sync_state \<Rightarrow> vvector \<Rightarrow> string + diff"
  exchangeChanges :: "sync_peer \<Rightarrow> diff \<Rightarrow> sync_state \<Rightarrow> string option \<times> sync_state"
  updateVersionVector :: "string \<Rightarrow> vvector \<Rightarrow> sync_state \<Rightarrow> string option \<times> sync_state"

text \<open>
  The state of the module is \<^verbatim>\<open>syncState\<close> together with the trace of the peers whose
  \<^verbatim>\<open>getVersionVector()\<close> has been called, in call order: the observable effect of
  processing a peer.
\<close>

type_synonym sync_world = "sync_state \<times> string list"

text \<open>
  The body of the \<^verbatim>\<open>for (const peer of peers)\<close> loop, lines 185 to 200: the inner
  \<^verbatim>\<open>try\<close>, whose \<^verbatim>\<open>catch\<close> logs the error and goes on to the next peer.
\<close>

definition sync_one :: "strategy \<Rightarrow> sync_peer \<Rightarrow> sync_world \<Rightarrow> sync_world" where
  "sync_one strat peer w =
     (let s = fst w; tr = snd w @ [sp_id peer] in
      case getVersionVector peer of
        Inl err \<Rightarrow> (s, tr)
      | Inr peerVector \<Rightarrow>
          (case compareVersionVectors strat s peerVector of
             Inl err \<Rightarrow> (s, tr)
           | Inr d \<Rightarrow>
               (let (x, s1) = (if needsUpdate d then exchangeChanges strat peer d s
                               else (None, s)) in
                case x of
                  Some err \<Rightarrow> (s1, tr)
                | None \<Rightarrow> (snd (updateVersionVector strat (sp_id peer) peerVector s1), tr))))"

fun sync_loop :: "strategy \<Rightarrow> sync_peer list \<Rightarrow> sync_world \<Rightarrow> sync_world" where
  "sync_loop strat [] w = w"
| "sync_loop strat (peer # rest) w = sync_loop strat rest (sync_one strat peer w)"

text \<open>
  \<^verbatim>\<open>syncWithPeers(peers)\<close>, lines 170 to 208. The guard returns at once; otherwise the
  outer \<^verbatim>\<open>try\<close> sets the flag and \<^verbatim>\<open>lastSync\<close>, awaits \<^verbatim>\<open>getLocalChanges()\<close> (whose
  failure the outer \<^verbatim>\<open>catch\<close> rethrows) and runs the loop; \<^verbatim>\<open>finally\<close> clears the flag on
  both paths.
\<close>

definition syncWithPeers ::
  "strategy \<Rightarrow> int \<Rightarrow> sync_peer list \<Rightarrow> sync_world \<Rightarrow> (error + unit) \<times> sync_world" where
  "syncWithPeers strat now peers w =
     (if syncInProgress (fst w) then (Inr (), w)
      else
        (let s1 = (fst w)\<lparr> syncInProgress := True, lastSync := Some now \<rparr> in
         case getLocalChanges strat s1 of
           Inl err \<Rightarrow> (Inl (Raised err), (s1\<lparr> syncInProgress := False \<rparr>, snd w))
         | Inr changes \<Rightarrow>
             (let w2 = sync_loop strat peers (s1, snd w) in
              (Inr (), ((fst w2)\<lparr> syncInProgress := False \<rparr>, snd w2)))))"

section \<open>The peer network (\<^verbatim>\<open>src/network/p2p.js\<close>)\<close>

subsection \<open>JavaScript values\<close>

text \<open>
  What \<^verbatim>\<open>handleMessage\<close> can be handed: any JavaScript value. Numbers matter only through
  their truthiness and their \<^verbatim>\<open>typeof\<close>, so \<^verbatim>\<open>NaN\<close> stands apart and the others carry a
  real. An object is the list of its own properties.
\<close>

datatype jsval =
    JUndefined
  | JNull
  | JBool bool
  | JNum real
  | JNaN
  | JStr string
  | JFunction
  | JArr "jsval list"
  | JObj "(string \<times> jsval) list"

fun js_truthy :: "jsval \<Rightarrow> bool" where
  "js_truthy JUndefined = False"
| "js_truthy JNull = False"
| "js_truthy (JBool b) = b"
| "js_truthy (JNum x) = (x \<noteq> 0)"
| "js_truthy JNaN = False"
| "js_truthy (JStr s) = (s \<noteq> [])"
| "js_truthy JFunction = True"
| "js_truthy (JArr xs) = True"
| "js_truthy (JObj fs) = True"

fun js_typeof :: "jsval \<Rightarrow> string" where
  "js_typeof JUndefined = ''undefined''"
| "js_typeof JNull = ''object''"
| "js_typeof (JBool b) = ''boolean''"
| "js_typeof (JNum x) = ''number''"
| "js_typeof JNaN = ''number''"
| "js_typeof (JStr s) = ''string''"
| "js_typeof JFunction = ''function''"
| "js_typeof (JArr xs) = ''object''"
| "js_typeof (JObj fs) = ''object''"

text \<open>
  Reading the property \<open>k\<close>, for the two names the router reads, \<^verbatim>\<open>type\<close> and \<^verbatim>\<open>data\<close>:
  an object gives the property's value or \<^verbatim>\<open>undefined\<close>; an array, a string, a number, a
  boolean or a function has neither property. Reading a property of \<^verbatim>\<open>null\<close> or
  \<^verbatim>\<open>undefined\<close> throws in JavaScript; \<^verbatim>\<open>validateMessage\<close> reads properties only behind
  \<^verbatim>\<open>message &&\<close> and \<^verbatim>\<open>handleMessage\<close> only after validation, so that case is never
  evaluated.
\<close>

fun js_prop :: "jsval \<Rightarrow> string \<Rightarrow> jsval" where
  "js_prop (JObj fs) k = (case map_of fs k of Some v \<Rightarrow> v | None \<Rightarrow> JUndefined)"
| "js_prop v k = JUndefined"

subsection \<open>Records of the network object\<close>

text \<open>A peer descriptor as \<^verbatim>\<open>addPeer\<close> reads it; \<^verbatim>\<open>metadata\<close> is its JSON text when given.\<close>

record peer =
  peer_name :: "string option"
  publicKey :: string
  metadata :: "string option"

text \<open>
  The connection object built in \<^verbatim>\<open>initializeConnection\<close>; \<^verbatim>\<open>lastActive\<close> is absent
  until \<^verbatim>\<open>updateConnectionStatus\<close> stamps it.
\<close>

record connection =
  conn_id :: string
  conn_peerId :: string
  status :: string
  established :: int
  lastActive :: "int option"
  retries :: nat

record net_config =
  maxRetries :: nat
  retryDelay :: nat
  heartbeatInterval :: nat
  connectionTimeout :: int

record net_limits =
  maxPeers :: nat
  maxConnections :: nat
  maxPendingConnections :: nat
  maxMessageSize :: nat

text \<open>The rows of the tables \<^verbatim>\<open>peers\<close> and \<^verbatim>\<open>connections\<close> of \<^verbatim>\<open>setupDatabase\<close>.\<close>

record peer_row =
  row_name :: "string option"
  row_publicKey :: string
  row_lastSeen :: int
  row_trustScore :: real
  row_status :: string
  row_metadata :: string

record conn_row =
  crow_id :: string
  crow_peerId :: string
  crow_status :: string
  crow_established :: int
  crow_lastActive :: int
  crow_metadata :: string

record database =
  peers_table :: "(string \<times> peer_row) list"
  connections_table :: "conn_row list"

text \<open>
  \<^verbatim>\<open>INSERT OR REPLACE INTO peers\<close>: \<^verbatim>\<open>id\<close> is the primary key, so a row with the same id
  is deleted and the new row inserted.
\<close>

definition insert_or_replace ::
  "(string \<times> peer_row) list \<Rightarrow> string \<Rightarrow> peer_row \<Rightarrow> (string \<times> peer_row) list" where
  "insert_or_replace tbl k row = filter (\<lambda>r. fst r \<noteq> k) tbl @ [(k, row)]"

text \<open>
  The state of the \<^verbatim>\<open>P2PNetwork\<close> object. \<^verbatim>\<open>db\<close> is \<^verbatim>\<open>null\<close> until \<^verbatim>\<open>initialize()\<close>.
  Three traces record the effects that leave the object: \<open>timers\<close>, the
  \<^verbatim>\<open>setTimeout\<close> calls of \<^verbatim>\<open>retryConnection\<close> as (delay in ms, peer id), each one an
  establishment attempt for that peer; \<open>spawned\<close>, the peers for which \<^verbatim>\<open>addPeer\<close> has
  started \<^verbatim>\<open>establishConnection\<close> without awaiting it; \<open>sent\<close>, the calls of
  \<^verbatim>\<open>sendToPeer\<close> as (peer id, message).
\<close>

record p2p_state =
  peers :: "(string, peer) jsmap"
  connections :: "(string, connection) jsmap"
  db :: "database option"
  config :: net_config
  limits :: net_limits
  timers :: "(nat \<times> string) list"
  spawned :: "string list"
  sent :: "(string \<times> jsval) list"

definition default_config :: net_config where
  "default_config =
     \<lparr> maxRetries = 3, retryDelay = 1000, heartbeatInterval = 30000, connectionTimeout = 10000 \<rparr>"

definition default_limits :: net_limits where
  "default_limits =
     \<lparr> maxPeers = 10, maxConnections = 20, maxPendingConnections = 5,
       maxMessageSize = 1024 * 1024 \<rparr>"

definition empty_database :: database where
  "empty_database = \<lparr> peers_table = [], connections_table = [] \<rparr>"

text \<open>The object after the constructor and \<^verbatim>\<open>initialize()\<close>: empty maps, an open database.\<close>

definition initialized_state :: p2p_state where
  "initialized_state =
     \<lparr> peers = [], connections = [], db = Some empty_database, config = default_config,
       limits = default_limits, timers = [], spawned = [], sent = [] \<rparr>"

text \<open>
  What the class takes from outside: the SHA-256 hex digest of \<^verbatim>\<open>crypto\<close>, the WebRTC
  peer connection, and the transport. \<^verbatim>\<open>sendToPeer\<close> and \<^verbatim>\<open>waitForAnswer\<close> are called by
  the class and not defined in the source: they are parameters too. Each call either
  gives its value or fails with a message.
\<close>

record env =
  sha256_hex :: "string \<Rightarrow> string"
  createOffer :: "string + jsval"
  setLocalDescription :: "jsval \<Rightarrow> string option"
  sendToPeer :: "string \<Rightarrow> jsval \<Rightarrow> string option"
  waitForAnswer :: "string \<Rightarrow> string + jsval"
  setRemoteDescription :: "jsval \<Rightarrow> string option"

text \<open>The error of a method call on \<^verbatim>\<open>this.db\<close> while it is \<^verbatim>\<open>null\<close>.\<close>

definition db_is_null :: string where
  "db_is_null = ''TypeError: Cannot read properties of null (reading prepare)''"

text \<open>The error of an \<^verbatim>\<open>INSERT\<close> whose \<^verbatim>\<open>peerId\<close> has no row in \<^verbatim>\<open>peers\<close>.\<close>

definition foreign_key_failed :: string where
  "foreign_key_failed = ''SqliteError: FOREIGN KEY constraint failed''"

subsection \<open>Retry policy\<close>

text \<open>\<^verbatim>\<open>shouldRetryConnection\<close>, lines 414 to 417; no connection gives \<^verbatim>\<open>undefined\<close>, falsy.\<close>

definition shouldRetryConnection :: "p2p_state \<Rightarrow> string \<Rightarrow> bool" where
  "shouldRetryConnection st peerId =
     (case jsmap_get (connections st) peerId of
        None \<Rightarrow> False
      | Some connection \<Rightarrow> retries connection < maxRetries (config st))"

text \<open>
  \<^verbatim>\<open>retryConnection\<close>, lines 419 to 427: \<^verbatim>\<open>connection.retries++\<close>, then the timer, whose
  delay reads the counter after the increment.
\<close>

definition retryConnection :: "p2p_state \<Rightarrow> string \<Rightarrow> p2p_state" where
  "retryConnection st peerId =
     (case jsmap_get (connections st) peerId of
        None \<Rightarrow> st
      | Some connection \<Rightarrow>
          (let connection' = connection\<lparr> retries := retries connection + 1 \<rparr> in
           st\<lparr> connections := jsmap_set (connections st) peerId connection',
               timers := timers st @ [(retryDelay (config st) * retries connection', peerId)] \<rparr>))"

text \<open>
  Modelled from the spec: \<^verbatim>\<open>closeConnection(peerId)\<close> is called by
  \<^verbatim>\<open>handleConnectionTimeout\<close> and \<^verbatim>\<open>removePeer\<close> and is not defined in the source. The
  design's retry policy says that "the connection is closed" and then looks the same
  connection up for its retry counter, and that past the last retry "the connection remains
  \<^verbatim>\<open>closed\<close>": closing sets the status of the peer's connection record to \<^verbatim>\<open>closed\<close> and
  keeps the record; without a record there is nothing to close.
\<close>

definition closeConnection :: "string \<Rightarrow> p2p_state \<Rightarrow> p2p_state" where
  "closeConnection peerId st =
     (case jsmap_get (connections st) peerId of
        None \<Rightarrow> st
      | Some connection \<Rightarrow>
          st\<lparr> connections :=
                jsmap_set (connections st) peerId (connection\<lparr> status := ''closed'' \<rparr>) \<rparr>)"

text \<open>
  \<^verbatim>\<open>handleConnectionTimeout\<close>, lines 403 to 412. Nothing in the \<^verbatim>\<open>try\<close> fails in this
  model, so its \<^verbatim>\<open>catch\<close>, which only logs, has no branch.
\<close>

definition handleConnectionTimeout :: "string \<Rightarrow> p2p_state \<Rightarrow> p2p_state" where
  "handleConnectionTimeout peerId st =
     (let st1 = closeConnection peerId st in
      if shouldRetryConnection st1 peerId then retryConnection st1 peerId else st1)"

text \<open>
  Modelled from the spec: \<^verbatim>\<open>handleConnectionError(peerId, err)\<close> is called by the
  \<^verbatim>\<open>catch\<close> of \<^verbatim>\<open>establishConnection\<close> and is not defined in the source. The design:
  "Retry policy: on timeout or establishment failure, the connection is closed and, if
  \<^verbatim>\<open>retries < maxRetries\<close>, a new establishment attempt is scheduled after
  \<^verbatim>\<open>retryDelay * (retries+1)\<close>, with \<^verbatim>\<open>retries\<close> incremented first", and a failure of the
  exchange "is reported to the retry policy rather than propagated". So it applies to an
  establishment failure the policy that \<^verbatim>\<open>handleConnectionTimeout\<close> applies to a timeout,
  and throws nothing.
\<close>

definition handleConnectionError :: "string \<Rightarrow> string \<Rightarrow> p2p_state \<Rightarrow> p2p_state" where
  "handleConnectionError peerId err st =
     (let st1 = closeConnection peerId st in
      if shouldRetryConnection st1 peerId then retryConnection st1 peerId else st1)"

subsection \<open>Heartbeat monitor\<close>

text \<open>
  The test of line 395: \<^verbatim>\<open>now - connection.lastActive > connectionTimeout\<close>. Without a
  \<^verbatim>\<open>lastActive\<close> the difference is \<^verbatim>\<open>NaN\<close> and the comparison false.
\<close>

definition timed_out :: "int \<Rightarrow> net_config \<Rightarrow> connection \<Rightarrow> bool" where
  "timed_out now cfg connection =
     (status connection = ''connected'' \<and>
      (case lastActive connection of
         None \<Rightarrow> False
       | Some t \<Rightarrow> now - t > connectionTimeout cfg))"

text \<open>
  \<^verbatim>\<open>monitorConnections\<close>, lines 392 to 401. The loop walks the keys of the \<^verbatim>\<open>Map\<close> and
  sees each connection object as it is when its turn comes; no key is added or removed
  while it runs.
\<close>

fun monitor_loop :: "int \<Rightarrow> string list \<Rightarrow> p2p_state \<Rightarrow> p2p_state" where
  "monitor_loop now [] st = st"
| "monitor_loop now (peerId # rest) st =
     monitor_loop now rest
       (case jsmap_get (connections st) peerId of
          None \<Rightarrow> st
        | Some connection \<Rightarrow>
            if timed_out now (config st) connection then handleConnectionTimeout peerId st
            else st)"

definition monitorConnections :: "int \<Rightarrow> p2p_state \<Rightarrow> p2p_state" where
  "monitorConnections now st = monitor_loop now (jsmap_keys (connections st)) st"


subsection \<open>Connections\<close>

text \<open>
  \<^verbatim>\<open>updateConnectionStatus\<close>, lines 377 to 390: the object is stamped first, then the row;
  \<open>Some msg\<close> is the error of the database call.
\<close>

definition updateConnectionStatus ::
  "int \<Rightarrow> string \<Rightarrow> string \<Rightarrow> p2p_state \<Rightarrow> string option \<times> p2p_state" where
  "updateConnectionStatus now peerId newStatus st =
     (case jsmap_get (connections st) peerId of
        None \<Rightarrow> (None, st)
      | Some connection \<Rightarrow>
          (let st1 = st\<lparr> connections := jsmap_set (connections st) peerId
                          (connection\<lparr> status := newStatus, lastActive := Some now \<rparr>) \<rparr> in
           case db st1 of
             None \<Rightarrow> (Some db_is_null, st1)
           | Some d \<Rightarrow>
               (None, st1\<lparr> db := Some (d\<lparr> connections_table :=
                   map (\<lambda>r. if crow_peerId r = peerId
                             then r\<lparr> crow_status := newStatus, crow_lastActive := now \<rparr> else r)
                       (connections_table d) \<rparr>) \<rparr>)))"

text \<open>
  The \<^verbatim>\<open>try\<close> block of \<^verbatim>\<open>establishConnection\<close>, lines 288 to 305: the offer/answer
  exchange. \<open>Some msg\<close> is the error that reaches the \<^verbatim>\<open>catch\<close>.
\<close>

definition offer_answer_exchange ::
  "env \<Rightarrow> int \<Rightarrow> string \<Rightarrow> p2p_state \<Rightarrow> string option \<times> p2p_state" where
  "offer_answer_exchange e now peerId st =
     (case createOffer e of
        Inl err \<Rightarrow> (Some err, st)
      | Inr offer \<Rightarrow>
          (case setLocalDescription e offer of
             Some err \<Rightarrow> (Some err, st)
           | None \<Rightarrow>
               (let msg = JObj [(''type'', JStr ''OFFER''), (''data'', offer)];
                    st1 = st\<lparr> sent := sent st @ [(peerId, msg)] \<rparr> in
                case sendToPeer e peerId msg of
                  Some err \<Rightarrow> (Some err, st1)
                | None \<Rightarrow>
                    (case waitForAnswer e peerId of
                       Inl err \<Rightarrow> (Some err, st1)
                     | Inr answer \<Rightarrow>
                         (case setRemoteDescription e answer of
                            Some err \<Rightarrow> (Some err, st1)
                          | None \<Rightarrow> updateConnectionStatus now peerId ''connected'' st1)))))"

text \<open>
  \<^verbatim>\<open>establishConnection\<close>, lines 281 to 310: \<^verbatim>\<open>'Peer not found'\<close> is thrown before the
  \<^verbatim>\<open>try\<close>; the \<^verbatim>\<open>catch\<close> logs the error of the exchange and calls
  \<^verbatim>\<open>handleConnectionError\<close>.
\<close>

definition establishConnection ::
  "env \<Rightarrow> int \<Rightarrow> string \<Rightarrow> p2p_state \<Rightarrow> (error + unit) \<times> p2p_state" where
  "establishConnection e now peerId st =
     (case jsmap_get (peers st) peerId of
        None \<Rightarrow> (Inl PeerNotFound, st)
      | Some p \<Rightarrow>
          (case offer_answer_exchange e now peerId st of
             (None, st1) \<Rightarrow> (Inr (), st1)
           | (Some err, st1) \<Rightarrow> (Inr (), handleConnectionError peerId err st1)))"

text \<open>
  \<^verbatim>\<open>initializeConnection\<close>, lines 243 to 279, up to \<^verbatim>\<open>this.connections.set\<close>: the limit
  check, the new connection object, its row. The table \<^verbatim>\<open>connections\<close> declares
  \<^verbatim>\<open>FOREIGN KEY(peerId) REFERENCES peers(id)\<close> (line 79), which the database enforces: for
  a peer id without a row in \<^verbatim>\<open>peers\<close> the \<^verbatim>\<open>INSERT\<close> throws, before
  \<^verbatim>\<open>this.connections.set\<close> is reached. \<^verbatim>\<open>crypto.randomUUID()\<close> is the argument \<open>uuid\<close>; a
  fresh id never meets the primary key of an older row.
\<close>

definition initializeConnection_begin ::
  "int \<Rightarrow> string \<Rightarrow> string \<Rightarrow> p2p_state \<Rightarrow> (error + connection) \<times> p2p_state" where
  "initializeConnection_begin now uuid peerId st =
     (if jsmap_size (connections st) \<ge> maxConnections (limits st)
      then (Inl ConnectionLimitExceeded, st)
      else
        (let connection = \<lparr> conn_id = uuid, conn_peerId = peerId, status = ''initializing'',
                             established = now, lastActive = None, retries = 0 \<rparr> in
         case db st of
           None \<Rightarrow> (Inl (Raised db_is_null), st)
         | Some d \<Rightarrow>
             if map_of (peers_table d) peerId = None
             then (Inl (Raised foreign_key_failed), st)
             else
             (Inr connection,
              st\<lparr> db := Some (d\<lparr> connections_table := connections_table d @
                       [\<lparr> crow_id = uuid, crow_peerId = peerId, crow_status = status connection,
                          crow_established = established connection,
                          crow_lastActive = established connection,
                          crow_metadata = ''{}'' \<rparr>] \<rparr>),
                  connections := jsmap_set (connections st) peerId connection \<rparr>)))"

text \<open>
  The whole of \<^verbatim>\<open>initializeConnection\<close> for a caller that awaits it: the beginning, then
  \<^verbatim>\<open>await this.establishConnection(peerId)\<close>, whose error the \<^verbatim>\<open>catch\<close> logs and rethrows;
  the connection object returned is the one stored in the map, as later updates left it.
\<close>

definition initializeConnection ::
  "env \<Rightarrow> int \<Rightarrow> string \<Rightarrow> string \<Rightarrow> p2p_state \<Rightarrow> (error + connection) \<times> p2p_state" where
  "initializeConnection e now uuid peerId st =
     (case initializeConnection_begin now uuid peerId st of
        (Inl err, st1) \<Rightarrow> (Inl err, st1)
      | (Inr connection, st1) \<Rightarrow>
          (case establishConnection e now peerId st1 of
             (Inl err, st2) \<Rightarrow> (Inl err, st2)
           | (Inr u, st2) \<Rightarrow>
               (case jsmap_get (connections st2) peerId of
                  None \<Rightarrow> (Inr connection, st2)
                | Some c \<Rightarrow> (Inr c, st2))))"

subsection \<open>Peer directory\<close>

text \<open>\<^verbatim>\<open>generatePeerId\<close>, lines 347 to 351.\<close>

definition generatePeerId :: "env \<Rightarrow> peer \<Rightarrow> string" where
  "generatePeerId e p = sha256_hex e (publicKey p)"

text \<open>
  \<^verbatim>\<open>addPeer\<close>, lines 198 to 224. The call \<^verbatim>\<open>this.initializeConnection(peerId)\<close> is not
  awaited: it runs up to its first suspension, inside \<^verbatim>\<open>establishConnection\<close>, before
  \<^verbatim>\<open>addPeer\<close> returns, and neither its result nor its rejection reaches \<^verbatim>\<open>addPeer\<close>.
  So the beginning of \<^verbatim>\<open>initializeConnection\<close> has taken effect when the id is returned,
  and the establishment it started is recorded in \<open>spawned\<close>. Both clock reads take
  \<open>now\<close>. \<^verbatim>\<open>peer.metadata || {}\<close> gives the text \<^verbatim>\<open>{}\<close> when the descriptor has none.
\<close>

definition addPeer ::
  "env \<Rightarrow> int \<Rightarrow> string \<Rightarrow> peer \<Rightarrow> p2p_state \<Rightarrow> (error + string) \<times> p2p_state" where
  "addPeer e now uuid p st =
     (if jsmap_size (peers st) \<ge> maxPeers (limits st) then (Inl PeerLimitExceeded, st)
      else
        (let peerId = generatePeerId e p in
         case db st of
           None \<Rightarrow> (Inl (Raised db_is_null), st)
         | Some d \<Rightarrow>
             (let row = \<lparr> row_name = peer_name p, row_publicKey = publicKey p,
                          row_lastSeen = now, row_trustScore = 1, row_status = ''new'',
                          row_metadata = (case metadata p of None \<Rightarrow> ''{}'' | Some j \<Rightarrow> j) \<rparr>;
                  st1 = st\<lparr> db := Some (d\<lparr> peers_table :=
                                  insert_or_replace (peers_table d) peerId row \<rparr>) \<rparr>;
                  st2 = st1\<lparr> peers := jsmap_set (peers st1) peerId p \<rparr>;
                  st3 = (case initializeConnection_begin now uuid peerId st2 of
                           (Inl err, s) \<Rightarrow> s
                         | (Inr connection, s) \<Rightarrow> s\<lparr> spawned := spawned s @ [peerId] \<rparr>)
              in (Inr peerId, st3))))"

subsection \<open>Message router\<close>

text \<open>
  \<^verbatim>\<open>validateMessage\<close>, lines 353 to 358. The JavaScript \<^verbatim>\<open>&&\<close> chain gives a falsy value
  exactly when one of its four operands is falsy; the function is used only under \<^verbatim>\<open>!\<close>,
  so its truthiness is what is modelled.
\<close>

definition validateMessage :: "jsval \<Rightarrow> bool" where
  "validateMessage message =
     (js_truthy message \<and>
      js_typeof message = ''object'' \<and>
      js_typeof (js_prop message ''type'') = ''string'' \<and>
      js_prop message ''data'' \<noteq> JUndefined)"

text \<open>
  The five handlers \<^verbatim>\<open>handleMessage\<close> dispatches to are not defined in the source: they
  are parameters, each given \<^verbatim>\<open>message.data\<close>, free to change the state in any way and
  to fail with a message.
\<close>

record handlers =
  handlePeerAnnouncement :: "jsval \<Rightarrow> p2p_state \<Rightarrow> string option \<times> p2p_state"
  handleResourceUpdate :: "jsval \<Rightarrow> p2p_state \<Rightarrow> string option \<times> p2p_state"
  handleOffer :: "jsval \<Rightarrow> p2p_state \<Rightarrow> string option \<times> p2p_state"
  handleAnswer :: "jsval \<Rightarrow> p2p_state \<Rightarrow> string option \<times> p2p_state"
  handleICECandidate :: "jsval \<Rightarrow> p2p_state \<Rightarrow> string option \<times> p2p_state"

definition rethrow :: "string option \<times> p2p_state \<Rightarrow> (error + unit) \<times> p2p_state" where
  "rethrow r = (case fst r of None \<Rightarrow> (Inr (), snd r) | Some err \<Rightarrow> (Inl (Raised err), snd r))"

text \<open>
  \<^verbatim>\<open>handleMessage\<close>, lines 313 to 344: the \<^verbatim>\<open>catch\<close> logs and rethrows whatever the
  \<^verbatim>\<open>try\<close> threw; an unknown type is logged and dropped.
\<close>

definition handleMessage ::
  "handlers \<Rightarrow> jsval \<Rightarrow> p2p_state \<Rightarrow> (error + unit) \<times> p2p_state" where
  "handleMessage h message st =
     (if \<not> validateMessage message then (Inl InvalidMessageFormat, st)
      else
        (let ty = js_prop message ''type''; d = js_prop message ''data'' in
         if ty = JStr ''PEER_ANNOUNCE'' then rethrow (handlePeerAnnouncement h d st)
         else if ty = JStr ''RESOURCE_UPDATE'' then rethrow (handleResourceUpdate h d st)
         else if ty = JStr ''OFFER'' then rethrow (handleOffer h d st)
         else if ty = JStr ''ANSWER'' then rethrow (handleAnswer h d st)
         else if ty = JStr ''ICE_CANDIDATE'' then rethrow (handleICECandidate h d st)
         else (Inr (), st)))"

text \<open>
  The design's wording of a valid message, for comparison with \<^verbatim>\<open>validateMessage\<close>: "a
  structured object with a string \<^verbatim>\<open>type\<close> and a present (possibly empty) \<^verbatim>\<open>data\<close>
  field". A field whose value is \<^verbatim>\<open>undefined\<close> is not present; \<^verbatim>\<open>null\<close>, an empty object
  and an empty string are.
\<close>

definition well_formed_message :: "jsval \<Rightarrow> bool" where
  "well_formed_message m =
     (case m of
        JObj fs \<Rightarrow>
          (case map_of fs ''type'' of Some (JStr t) \<Rightarrow> True | _ \<Rightarrow> False) \<and>
          (case map_of fs ''data'' of None \<Rightarrow> False | Some v \<Rightarrow> v \<noteq> JUndefined)
      | _ \<Rightarrow> False)"

subsection \<open>Broadcast\<close>

text \<open>
  \<^verbatim>\<open>broadcast\<close>, lines 365 to 375: the entries of \<^verbatim>\<open>this.connections\<close> in order; the
  \<^verbatim>\<open>catch\<close> around \<^verbatim>\<open>sendToPeer\<close> logs the failure and the loop goes on.
\<close>

fun broadcast_loop ::
  "env \<Rightarrow> jsval \<Rightarrow> (string \<times> connection) list \<Rightarrow> p2p_state \<Rightarrow> p2p_state" where
  "broadcast_loop e message [] st = st"
| "broadcast_loop e message ((peerId, connection) # rest) st =
     broadcast_loop e message rest
       (if status connection = ''connected''
        then (let st1 = st\<lparr> sent := sent st @ [(peerId, message)] \<rparr> in
              case sendToPeer e peerId message of
                Some err \<Rightarrow> st1
              | None \<Rightarrow> st1)
        else st)"

definition broadcast :: "env \<Rightarrow> jsval \<Rightarrow> p2p_state \<Rightarrow> p2p_state" where
  "broadcast e message st = broadcast_loop e message (connections st) st"

subsection \<open>Consistent states\<close>

text \<open>
  What the methods above keep true of the object, from \<^verbatim>\<open>initialize()\<close> on an empty
  database onwards: a \<^verbatim>\<open>Map\<close> holds each key once; a connection is stored only under the id
  of a registered peer (\<^verbatim>\<open>addPeer\<close> registers the peer first, and for any other id the
  foreign key stops \<^verbatim>\<open>initializeConnection\<close>); the directory and the table \<^verbatim>\<open>peers\<close> hold
  the same ids (\<^verbatim>\<open>addPeer\<close> writes both), so a registered peer has its row and the database
  is open; and no more peers are admitted than connections, as with the limits of the
  constructor, 10 and 20.
\<close>

definition persisted_ids :: "p2p_state \<Rightarrow> string set" where
  "persisted_ids st = (case db st of None \<Rightarrow> {} | Some d \<Rightarrow> fst ` set (peers_table d))"

definition consistent :: "p2p_state \<Rightarrow> bool" where
  "consistent st =
     (distinct (jsmap_keys (peers st)) \<and>
      distinct (jsmap_keys (connections st)) \<and>
      set (jsmap_keys (connections st)) \<subseteq> set (jsmap_keys (peers st)) \<and>
      set (jsmap_keys (peers st)) = persisted_ids st \<and>
      maxPeers (limits st) \<le> maxConnections (limits st))"

text \<open>
  Two states of the same shape: the same directory, limits, configuration and persisted ids,
  and the same keys in the connection table. Every method but \<^verbatim>\<open>addPeer\<close> and
  \<^verbatim>\<open>initializeConnection\<close> leaves the shape as it is.
\<close>

definition keeps_shape :: "p2p_state \<Rightarrow> p2p_state \<Rightarrow> bool" where
  "keeps_shape st st' =
     (peers st' = peers st \<and> limits st' = limits st \<and> config st' = config st \<and>
      persisted_ids st' = persisted_ids st \<and>
      jsmap_keys (connections st') = jsmap_keys (connections st))"

section \<open>Inputs to run the model on\<close>

text \<open>
  A strategy and two peers to run the engine on: nothing to exchange, and the vector of a
  peer is stored under its id. \<open>peerA\<close> rejects, \<open>peerB\<close> answers with an empty vector.
\<close>

definition example_strategy :: strategy where
  "example_strategy =
     \<lparr> getLocalChanges = (\<lambda>s. Inr []),
       compareVersionVectors = (\<lambda>s v. Inr \<lparr> needsUpdate = False \<rparr>),
       exchangeChanges = (\<lambda>p d s. (None, s)),
       updateVersionVector =
         (\<lambda>pid v s. (None, s\<lparr> versionVector := jsmap_set (versionVector s) pid v \<rparr>)) \<rparr>"

definition peerA :: sync_peer where
  "peerA = \<lparr> sp_id = ''peer-a'', getVersionVector = Inl ''Sync error'' \<rparr>"

definition peerB :: sync_peer where
  "peerB = \<lparr> sp_id = ''peer-b'', getVersionVector = Inr [] \<rparr>"

text \<open>
  An environment in which every step of the exchange succeeds. \<open>example_digest\<close> stands
  for the digest only where a theorem is run on an input; the theorems themselves hold for
  every digest function, SHA-256 among them.
\<close>

definition example_digest :: "string \<Rightarrow> string" where
  "example_digest key = ''digest-of-'' @ key"

definition example_env :: env where
  "example_env =
     \<lparr> sha256_hex = example_digest,
       createOffer = Inr (JObj [(''sdp'', JStr ''offer'')]),
       setLocalDescription = (\<lambda>d. None),
       sendToPeer = (\<lambda>peerId m. None),
       waitForAnswer = (\<lambda>peerId. Inr (JObj [(''sdp'', JStr ''answer'')])),
       setRemoteDescription = (\<lambda>d. None) \<rparr>"

text \<open>The same environment with \<^verbatim>\<open>createOffer()\<close> rejecting, and with a send to \<open>p1\<close> failing.\<close>

definition failing_env :: env where
  "failing_env = example_env\<lparr> createOffer := Inl ''Connection error'' \<rparr>"

definition flaky_env :: env where
  "flaky_env = example_env\<lparr> sendToPeer := (\<lambda>peerId m. if peerId = ''p1'' then Some ''send failed'' else None) \<rparr>"

text \<open>The peer of the design's example, registered alone with one connection.\<close>

definition alice :: peer where
  "alice = \<lparr> peer_name = Some ''Alice'', publicKey = ''abc123'', metadata = None \<rparr>"

definition alice_id :: string where
  "alice_id = ''digest-of-abc123''"

definition example_connection :: "string \<Rightarrow> string \<Rightarrow> nat \<Rightarrow> connection" where
  "example_connection peerId st n =
     \<lparr> conn_id = ''uuid-of-'' @ peerId, conn_peerId = peerId, status = st,
       established = 1000, lastActive = Some 1000, retries = n \<rparr>"

definition one_peer_state :: "string \<Rightarrow> nat \<Rightarrow> p2p_state" where
  "one_peer_state st n =
     initialized_state
       \<lparr> peers := [(alice_id, alice)],
         connections := [(alice_id, example_connection alice_id st n)] \<rparr>"

text \<open>Three connections, the second of them not connected.\<close>

definition three_connections :: p2p_state where
  "three_connections =
     initialized_state
       \<lparr> connections :=
           [(''p1'', example_connection ''p1'' ''connected'' 0),
            (''p2'', example_connection ''p2'' ''initializing'' 0),
            (''p3'', example_connection ''p3'' ''connected'' 1)] \<rparr>"

text \<open>A directory at the default limit of ten peers, and an eleventh peer.\<close>

definition numbered_peer :: "nat \<Rightarrow> peer" where
  "numbered_peer n =
     \<lparr> peer_name = Some (''Peer-'' @ replicate n CHR ''i''),
       publicKey = ''key-'' @ replicate n CHR ''i'', metadata = None \<rparr>"

definition full_directory :: p2p_state where
  "full_directory =
     initialized_state
       \<lparr> peers := map (\<lambda>n. (example_digest (publicKey (numbered_peer n)), numbered_peer n))
                       [0..<10] \<rparr>"

definition extra_peer :: peer where
  "extra_peer = \<lparr> peer_name = Some ''ExtraPeer'', publicKey = ''extra-key'', metadata = None \<rparr>"

text \<open>
  A run from the initialized object: \<open>alice\<close> is added and her connection established.
\<close>

definition alice_connected :: p2p_state where
  "alice_connected =
     snd (establishConnection example_env 2000 alice_id
            (snd (addPeer example_env 1000 ''uuid-a'' alice initialized_state)))"

text \<open>
  The run goes on: three times the heartbeat monitor finds the connection timed out, the
  retry policy schedules an attempt, and the attempt, \<^verbatim>\<open>establishConnection\<close> from the
  timer, connects again. The connection is then \<^verbatim>\<open>connected\<close> with its three retries used.
\<close>

definition exhausted_state :: p2p_state where
  "exhausted_state =
     snd (establishConnection example_env 41000 alice_id
       (monitorConnections 38000
         (snd (establishConnection example_env 27000 alice_id
           (monitorConnections 25000
             (snd (establishConnection example_env 14000 alice_id
               (monitorConnections 13000 alice_connected))))))))"

text \<open>Two messages, the first without \<^verbatim>\<open>data\<close>, and handlers that leave the state alone.\<close>

definition missing_data :: jsval where
  "missing_data = JObj [(''type'', JStr ''TEST'')]"

definition resource_update :: jsval where
  "resource_update = JObj [(''type'', JStr ''RESOURCE_UPDATE''), (''data'', JObj [])]"

definition idle_handlers :: handlers where
  "idle_handlers =
     \<lparr> handlePeerAnnouncement = (\<lambda>d st. (None, st)),
       handleResourceUpdate = (\<lambda>d st. (None, st)),
       handleOffer = (\<lambda>d st. (None, st)),
       handleAnswer = (\<lambda>d st. (None, st)),
       handleICECandidate = (\<lambda>d st. (Some ''no candidate'', st)) \<rparr>"


section \<open>Properties of the sync engine\<close>

lemma sync_one_trace: "snd (sync_one strat peer w) = snd w @ [sp_id peer]"
  by (simp add: sync_one_def Let_def split: sum.splits option.splits prod.splits)

lemma sync_one_rejects:
  "getVersionVector peer = Inl err \<Longrightarrow> sync_one strat peer w = (fst w, snd w @ [sp_id peer])"
  by (simp add: sync_one_def Let_def)

lemma sync_loop_trace: "snd (sync_loop strat ps w) = snd w @ map sp_id ps"
  by (induction ps arbitrary: w) (simp_all add: sync_one_trace)

lemma sync_loop_append:
  "sync_loop strat (ps @ qs) w = sync_loop strat qs (sync_loop strat ps w)"
  by (induction ps arbitrary: w) simp_all

text \<open>
  C1. While \<^verbatim>\<open>syncState.syncInProgress\<close> is true, \<^verbatim>\<open>syncWithPeers(peers)\<close> is a no-op for
  every peer list: it returns normally, and \<^verbatim>\<open>lastSync\<close>, \<^verbatim>\<open>syncInProgress\<close>,
  \<^verbatim>\<open>pendingChanges\<close> and \<^verbatim>\<open>versionVector\<close> are as before (no peer is contacted either).
\<close>

theorem syncWithPeers_in_progress_noop:
  assumes "syncInProgress (fst w)"
  shows "syncWithPeers strat now ps w = (Inr (), w)"
  using assms by (simp add: syncWithPeers_def)

theorem syncWithPeers_in_progress_noop_witness:
  "syncInProgress (initial_sync_state\<lparr> syncInProgress := True \<rparr>) \<and>
   syncWithPeers example_strategy 1000 [peerA, peerB]
       (initial_sync_state\<lparr> syncInProgress := True \<rparr>, [])
     = (Inr (), (initial_sync_state\<lparr> syncInProgress := True \<rparr>, []))"
proof -
  have h: "syncInProgress (fst (initial_sync_state\<lparr> syncInProgress := True \<rparr>, []::string list))"
    by simp
  show ?thesis
    using syncWithPeers_in_progress_noop [OF h, of example_strategy 1000 "[peerA, peerB]"]
    by simp
qed

text \<open>
  C2. In a pass of \<^verbatim>\<open>syncWithPeers\<close> (the flag was clear at the call), a peer \<open>p\<close> whose
  \<^verbatim>\<open>getVersionVector()\<close> rejects is skipped and the pass goes on: with \<open>ps\<close> the peers before
  \<open>p\<close> and \<open>qs\<close> the peers after it, the pass ends as the loop over \<open>qs\<close> started from
  the state the loop over \<open>ps\<close> left, \<open>p\<close> having added nothing but its contact to the
  trace, and every peer of the list has been contacted, in order. The flag is clear when
  the call ends, whether it returns (the loop has no failing exit) or rethrows the failure
  of \<^verbatim>\<open>getLocalChanges()\<close>, the one exception that leaves the outer \<^verbatim>\<open>try\<close>.
\<close>

theorem syncWithPeers_skips_rejecting_peer:
  assumes "\<not> syncInProgress (fst w)"
    and "getVersionVector p = Inl err"
  shows "\<not> syncInProgress (fst (snd (syncWithPeers strat now (ps @ p # qs) w))) \<and>
         (\<forall>changes.
            getLocalChanges strat ((fst w)\<lparr> syncInProgress := True, lastSync := Some now \<rparr>)
              = Inr changes \<longrightarrow>
            (let w1 = sync_loop strat ps
                        ((fst w)\<lparr> syncInProgress := True, lastSync := Some now \<rparr>, snd w);
                 w2 = sync_loop strat qs (fst w1, snd w1 @ [sp_id p])
             in syncWithPeers strat now (ps @ p # qs) w
                  = (Inr (), ((fst w2)\<lparr> syncInProgress := False \<rparr>, snd w2))) \<and>
            snd (snd (syncWithPeers strat now (ps @ p # qs) w))
              = snd w @ map sp_id ps @ sp_id p # map sp_id qs)"
proof -
  let ?s1 = "(fst w)\<lparr> syncInProgress := True, lastSync := Some now \<rparr>"
  have flag: "\<not> syncInProgress (fst (snd (syncWithPeers strat now (ps @ p # qs) w)))"
    using assms(1) by (simp add: syncWithPeers_def Let_def split: sum.splits)
  have loop: "sync_loop strat (ps @ p # qs) (?s1, snd w)
      = sync_loop strat qs
          (fst (sync_loop strat ps (?s1, snd w)), snd (sync_loop strat ps (?s1, snd w)) @ [sp_id p])"
    using assms(2) by (simp add: sync_loop_append sync_one_rejects)
  have run: "syncWithPeers strat now (ps @ p # qs) w
      = (Inr (), ((fst (sync_loop strat (ps @ p # qs) (?s1, snd w)))\<lparr> syncInProgress := False \<rparr>,
                  snd (sync_loop strat (ps @ p # qs) (?s1, snd w))))"
    if "getLocalChanges strat ?s1 = Inr changes" for changes
    using assms(1) that by (simp add: syncWithPeers_def Let_def)
  have trace: "snd (snd (syncWithPeers strat now (ps @ p # qs) w))
      = snd w @ map sp_id ps @ sp_id p # map sp_id qs"
    if "getLocalChanges strat ?s1 = Inr changes" for changes
    using run [OF that] by (simp add: sync_loop_trace)
  show ?thesis
    using flag run trace loop by (simp add: Let_def)
qed

theorem syncWithPeers_skips_rejecting_peer_witness:
  "\<not> syncInProgress initial_sync_state \<and> getVersionVector peerA = Inl ''Sync error'' \<and>
   syncWithPeers example_strategy 1000 [peerA, peerB] (initial_sync_state, [])
     = (Inr (),
        (initial_sync_state\<lparr> lastSync := Some 1000, versionVector := [(''peer-b'', [])] \<rparr>,
         [''peer-a'', ''peer-b'']))"
proof -
  have h1: "\<not> syncInProgress (fst (initial_sync_state, []::string list))"
    by (simp add: initial_sync_state_def)
  have h2: "getVersionVector peerA = Inl ''Sync error''"
    by (simp add: peerA_def)
  show ?thesis
    using syncWithPeers_skips_rejecting_peer
            [OF h1 h2, of example_strategy 1000 "[]" "[peerB]"] h2
    by (simp add: initial_sync_state_def example_strategy_def peerA_def peerB_def
                  sync_one_def Let_def)
qed

section \<open>Properties of the JavaScript map\<close>

lemma map_of_jsmap_set: "map_of (jsmap_set m k v) = (map_of m)(k \<mapsto> v)"
  by (induction m) (auto simp: fun_eq_iff)

lemma jsmap_get_set: "jsmap_get (jsmap_set m k v) k' = (if k' = k then Some v else jsmap_get m k')"
  by (simp add: jsmap_get_def map_of_jsmap_set)

lemma jsmap_size_set_present:
  "jsmap_get m k = Some v0 \<Longrightarrow> jsmap_size (jsmap_set m k v) = jsmap_size m"
  by (induction m) (auto simp: jsmap_size_def jsmap_get_def)

lemma jsmap_get_in_keys: "jsmap_get m k = Some v \<Longrightarrow> k \<in> set (jsmap_keys m)"
  by (auto simp: jsmap_get_def jsmap_keys_def dest: map_of_SomeD intro: rev_image_eqI)

section \<open>Properties of the peer directory\<close>

lemma insert_or_replace_row:
  "filter (\<lambda>r. fst r = k) (insert_or_replace tbl k row) = [(k, row)]"
  by (simp add: insert_or_replace_def filter_empty_conv)

text \<open>
  C3. The id that \<^verbatim>\<open>addPeer\<close> returns is the SHA-256 hex digest of the descriptor's
  \<^verbatim>\<open>publicKey\<close> (the digest being the function \<open>sha256_hex\<close> of the environment), so two
  calls that return, whatever the state, the clock, the connection id and the other fields of
  the descriptors, return the same id when the public keys are equal.
\<close>

theorem addPeer_id_deterministic:
  assumes "addPeer e now1 uuid1 p1 st1 = (Inr id1, st1')"
    and "addPeer e now2 uuid2 p2 st2 = (Inr id2, st2')"
    and "publicKey p1 = publicKey p2"
  shows "id1 = sha256_hex e (publicKey p1) \<and> id2 = id1"
  using assms
  by (auto simp: addPeer_def Let_def generatePeerId_def split: if_splits option.splits)

theorem addPeer_id_deterministic_witness:
  "addPeer example_env 5000 ''uuid-1'' alice initialized_state
     = (Inr alice_id, snd (addPeer example_env 5000 ''uuid-1'' alice initialized_state)) \<and>
   addPeer example_env 6000 ''uuid-2'' (alice\<lparr> peer_name := Some ''Alicia'' \<rparr>)
       (one_peer_state ''connected'' 2)
     = (Inr alice_id,
        snd (addPeer example_env 6000 ''uuid-2'' (alice\<lparr> peer_name := Some ''Alicia'' \<rparr>)
               (one_peer_state ''connected'' 2))) \<and>
   alice_id = sha256_hex example_env (publicKey alice)"
proof -
  have g: "generatePeerId example_env alice = alice_id"
    "generatePeerId example_env (alice\<lparr> peer_name := Some ''Alicia'' \<rparr>) = alice_id"
    by (simp_all add: generatePeerId_def example_env_def example_digest_def alice_def alice_id_def)
  have a1: "addPeer example_env 5000 ''uuid-1'' alice initialized_state
     = (Inr alice_id, snd (addPeer example_env 5000 ''uuid-1'' alice initialized_state))"
    by (simp add: addPeer_def g Let_def initialized_state_def default_limits_def jsmap_size_def
          split: prod.splits)
  have a2: "addPeer example_env 6000 ''uuid-2'' (alice\<lparr> peer_name := Some ''Alicia'' \<rparr>)
       (one_peer_state ''connected'' 2)
     = (Inr alice_id,
        snd (addPeer example_env 6000 ''uuid-2'' (alice\<lparr> peer_name := Some ''Alicia'' \<rparr>)
               (one_peer_state ''connected'' 2)))"
    by (simp add: addPeer_def g Let_def one_peer_state_def initialized_state_def
          default_limits_def jsmap_size_def split: prod.splits)
  have k: "publicKey alice = publicKey (alice\<lparr> peer_name := Some ''Alicia'' \<rparr>)"
    by simp
  show ?thesis
    using addPeer_id_deterministic [OF a1 a2 k] a1 a2 by simp
qed

text \<open>
  C4. When the number of known peers has reached \<^verbatim>\<open>limits.maxPeers\<close> (10 by default),
  \<^verbatim>\<open>addPeer\<close> fails with \<open>PeerLimitExceeded\<close> and the state is the state before the call:
  the directory keeps its size and no row is written.
\<close>

theorem addPeer_limit_reached:
  assumes "jsmap_size (peers st) \<ge> maxPeers (limits st)"
  shows "addPeer e now uuid p st = (Inl PeerLimitExceeded, st)"
  using assms by (simp add: addPeer_def)

theorem addPeer_limit_reached_witness:
  "jsmap_size (peers full_directory) = 10 \<and> maxPeers (limits full_directory) = 10 \<and>
   addPeer example_env 5000 ''uuid-11'' extra_peer full_directory
     = (Inl PeerLimitExceeded, full_directory)"
proof -
  have sz: "jsmap_size (peers full_directory) = 10"
    by (simp add: full_directory_def jsmap_size_def)
  have lim: "maxPeers (limits full_directory) = 10"
    by (simp add: full_directory_def initialized_state_def default_limits_def)
  have h: "jsmap_size (peers full_directory) \<ge> maxPeers (limits full_directory)"
    by (simp add: sz lim)
  show ?thesis
    using addPeer_limit_reached [OF h, of example_env 5000 "''uuid-11''" extra_peer] sz lim
    by simp
qed

lemma alice_id_digest: "generatePeerId example_env alice = alice_id"
  by (simp add: generatePeerId_def example_env_def example_digest_def alice_def alice_id_def)

lemma alice_connected_fields:
  "peers alice_connected = [(alice_id, alice)]"
  "connections alice_connected
     = [(alice_id, \<lparr> conn_id = ''uuid-a'', conn_peerId = alice_id, status = ''connected'',
                     established = 1000, lastActive = Some 2000, retries = 0 \<rparr>)]"
  "limits alice_connected = default_limits"
  "spawned alice_connected = [alice_id]"
  "db alice_connected \<noteq> None"
proof -
  have m: "metadata alice = None"
    by (simp add: alice_def)
  have a: "snd (addPeer example_env 1000 ''uuid-a'' alice initialized_state)
      = initialized_state
          \<lparr> peers := [(alice_id, alice)],
            connections := [(alice_id, \<lparr> conn_id = ''uuid-a'', conn_peerId = alice_id,
                 status = ''initializing'', established = 1000, lastActive = None, retries = 0 \<rparr>)],
            db := Some \<lparr> peers_table = [(alice_id, \<lparr> row_name = peer_name alice,
                 row_publicKey = publicKey alice, row_lastSeen = 1000,
                      row_trustScore = 1, row_status = ''new'', row_metadata = ''{}'' \<rparr>)],
                      connections_table = [\<lparr> crow_id = ''uuid-a'', crow_peerId = alice_id,
                          crow_status = ''initializing'',
                          crow_established = 1000, crow_lastActive = 1000, crow_metadata = ''{}'' \<rparr>] \<rparr>,
            spawned := [alice_id] \<rparr>"
    by (simp add: addPeer_def alice_id_digest Let_def initialized_state_def default_limits_def jsmap_size_def
          initializeConnection_begin_def empty_database_def insert_or_replace_def m)
  have x: "createOffer example_env = Inr (JObj [(''sdp'', JStr ''offer'')])"
    "setLocalDescription example_env = (\<lambda>d. None)" "sendToPeer example_env = (\<lambda>p m. None)"
    "waitForAnswer example_env = (\<lambda>p. Inr (JObj [(''sdp'', JStr ''answer'')]))"
    "setRemoteDescription example_env = (\<lambda>d. None)"
    by (simp_all add: example_env_def)
  show "peers alice_connected = [(alice_id, alice)]"
    "connections alice_connected
     = [(alice_id, \<lparr> conn_id = ''uuid-a'', conn_peerId = alice_id, status = ''connected'',
                     established = 1000, lastActive = Some 2000, retries = 0 \<rparr>)]"
    "limits alice_connected = default_limits"
    "spawned alice_connected = [alice_id]"
    "db alice_connected \<noteq> None"
    unfolding alice_connected_def a
    by (simp_all add: establishConnection_def offer_answer_exchange_def x
          updateConnectionStatus_def jsmap_get_def Let_def initialized_state_def)
qed

section \<open>Properties of the message router\<close>

lemma validateMessage_well_formed: "validateMessage m = well_formed_message m"
  by (cases m) (auto simp: validateMessage_def well_formed_message_def split: option.splits jsval.splits)

lemma rethrow_not_invalid: "fst (rethrow r) \<noteq> Inl InvalidMessageFormat"
  by (simp add: rethrow_def split: option.splits)

text \<open>
  C5. \<^verbatim>\<open>handleMessage\<close> fails with \<open>InvalidMessageFormat\<close> exactly when the inbound value
  is not a structured object with a string \<^verbatim>\<open>type\<close> and a present \<^verbatim>\<open>data\<close> field, and on
  such a failure the state is the state before the call. This holds whatever the handlers
  do: their failures are \<open>Raised\<close> errors.
\<close>

theorem handleMessage_invalid_format_iff:
  "(fst (handleMessage h m st) = Inl InvalidMessageFormat) = (\<not> well_formed_message m) \<and>
   (\<not> well_formed_message m \<longrightarrow> snd (handleMessage h m st) = st)"
  by (simp add: handleMessage_def Let_def validateMessage_well_formed rethrow_not_invalid)

theorem handleMessage_invalid_format_iff_witness:
  "\<not> well_formed_message missing_data \<and>
   handleMessage idle_handlers missing_data initialized_state
     = (Inl InvalidMessageFormat, initialized_state) \<and>
   well_formed_message resource_update \<and>
   handleMessage idle_handlers resource_update initialized_state = (Inr (), initialized_state)"
proof -
  have w1: "\<not> well_formed_message missing_data"
    by (simp add: well_formed_message_def missing_data_def)
  have w2: "well_formed_message resource_update"
    by (simp add: well_formed_message_def resource_update_def)
  have r: "handleMessage idle_handlers resource_update initialized_state = (Inr (), initialized_state)"
    by (simp add: handleMessage_def validateMessage_def resource_update_def idle_handlers_def
          rethrow_def Let_def)
  show ?thesis
    using handleMessage_invalid_format_iff [of idle_handlers missing_data initialized_state]
      w1 w2 r
    by (simp add: prod_eq_iff)
qed

section \<open>Properties of the retry policy and the heartbeat monitor\<close>

lemma closeConnection_get:
  "jsmap_get (connections (closeConnection q st)) k =
     (if k = q then map_option (\<lambda>c. c\<lparr> status := ''closed'' \<rparr>) (jsmap_get (connections st) q)
      else jsmap_get (connections st) k)"
  by (simp add: closeConnection_def jsmap_get_set split: option.splits)

lemma closeConnection_frame:
  "config (closeConnection q st) = config st" "timers (closeConnection q st) = timers st"
  by (simp_all add: closeConnection_def split: option.splits)

lemma handleConnectionTimeout_config: "config (handleConnectionTimeout q st) = config st"
  by (simp add: handleConnectionTimeout_def retryConnection_def Let_def closeConnection_frame
           split: option.splits)

lemma handleConnectionTimeout_other:
  assumes "k \<noteq> q"
  shows "jsmap_get (connections (handleConnectionTimeout q st)) k = jsmap_get (connections st) k"
    and "filter (\<lambda>t. snd t = k) (timers (handleConnectionTimeout q st))
           = filter (\<lambda>t. snd t = k) (timers st)"
  using assms
  by (simp_all add: handleConnectionTimeout_def retryConnection_def Let_def closeConnection_frame
        closeConnection_get jsmap_get_set split: option.splits)

lemma handleConnectionTimeout_self:
  assumes "jsmap_get (connections st) q = Some c"
  shows "jsmap_get (connections (handleConnectionTimeout q st)) q
           = Some (if retries c < maxRetries (config st)
                   then c\<lparr> status := ''closed'', retries := retries c + 1 \<rparr>
                   else c\<lparr> status := ''closed'' \<rparr>)"
    and "timers (handleConnectionTimeout q st)
           = timers st @ (if retries c < maxRetries (config st)
                          then [(retryDelay (config st) * (retries c + 1), q)] else [])"
  using assms
  by (simp_all add: handleConnectionTimeout_def retryConnection_def shouldRetryConnection_def
        Let_def closeConnection_frame closeConnection_get jsmap_get_set)

lemma handleConnectionTimeout_repeated:
  assumes "jsmap_get (connections st) q = Some c"
  shows "\<exists>c'. jsmap_get (connections ((handleConnectionTimeout q ^^ n) st)) q = Some c' \<and>
           retries c' = min (retries c + n) (max (retries c) (maxRetries (config st))) \<and>
           config ((handleConnectionTimeout q ^^ n) st) = config st \<and>
           timers ((handleConnectionTimeout q ^^ n) st)
             = timers st @ map (\<lambda>i. (retryDelay (config st) * (retries c + i + 1), q))
                               [0..<min n (maxRetries (config st) - retries c)]"
proof (induction n)
  case 0
  then show ?case using assms by simp
next
  case (Suc n)
  define st1 where "st1 = (handleConnectionTimeout q ^^ n) st"
  from Suc obtain c' where g: "jsmap_get (connections st1) q = Some c'"
    and r: "retries c' = min (retries c + n) (max (retries c) (maxRetries (config st)))"
    and cfg: "config st1 = config st"
    and t: "timers st1 = timers st @ map (\<lambda>i. (retryDelay (config st) * (retries c + i + 1), q))
                               [0..<min n (maxRetries (config st) - retries c)]"
    unfolding st1_def by blast
  have step: "(handleConnectionTimeout q ^^ Suc n) st = handleConnectionTimeout q st1"
    by (simp add: st1_def)
  note s = handleConnectionTimeout_self [OF g]
  show ?case
  proof (cases "retries c' < maxRetries (config st)")
    case True
    then have lt: "retries c + n < maxRetries (config st)" using r by (simp add: min_def max_def split: if_splits)
    then have m: "min (Suc n) (maxRetries (config st) - retries c) = Suc n"
      "min n (maxRetries (config st) - retries c) = n" "retries c' = retries c + n"
      using r by simp_all
    show ?thesis
      unfolding step using True s cfg t m lt
      by (simp add: handleConnectionTimeout_config)
  next
    case False
    then have ge: "maxRetries (config st) \<le> retries c + n"
      using r by (simp add: min_def max_def split: if_splits)
    have m1: "min (Suc n) (maxRetries (config st) - retries c)
                = min n (maxRetries (config st) - retries c)"
      using ge by simp
    have m2: "min (retries c + Suc n) (max (retries c) (maxRetries (config st)))
                = min (retries c + n) (max (retries c) (maxRetries (config st)))"
      using ge by simp
    have g': "jsmap_get (connections (handleConnectionTimeout q st1)) q
                = Some (c'\<lparr> status := ''closed'' \<rparr>)"
      using s(1) False cfg by simp
    have t': "timers (handleConnectionTimeout q st1) = timers st1"
      using s(2) False cfg by simp
    show ?thesis
      unfolding step m1 m2 using g' t' t r cfg
      by (simp add: handleConnectionTimeout_config)
  qed
qed

text \<open>
  C6. For a peer with a connection \<open>c\<close>: \<^verbatim>\<open>shouldRetryConnection\<close> is true exactly when
  \<^verbatim>\<open>retries < maxRetries\<close>; \<^verbatim>\<open>retryConnection\<close> increments \<^verbatim>\<open>retries\<close> and then sets the
  timer of the next establishment attempt to \<^verbatim>\<open>retryDelay * (retries + 1)\<close>, \<^verbatim>\<open>retries\<close>
  being the count before the increment. After a timeout, and in the same way after an
  establishment failure, the attempt is scheduled so when \<^verbatim>\<open>retries < maxRetries\<close>; once
  \<^verbatim>\<open>retries\<close> has reached \<^verbatim>\<open>maxRetries\<close> no timer is set, the counter stays, and
  \<^verbatim>\<open>shouldRetryConnection\<close> is false afterwards too. Over consecutive timeouts of the
  peer, as soon as there have been \<^verbatim>\<open>maxRetries - retries\<close> of them
  \<^verbatim>\<open>shouldRetryConnection\<close> is false, and the attempts scheduled are those, with delays
  growing by \<^verbatim>\<open>retryDelay\<close>, however many timeouts follow.
\<close>

theorem retry_policy_linear_backoff:
  assumes "jsmap_get (connections st) peerId = Some c"
  shows "shouldRetryConnection st peerId = (retries c < maxRetries (config st)) \<and>
         retryConnection st peerId
           = st\<lparr> connections :=
                   jsmap_set (connections st) peerId (c\<lparr> retries := retries c + 1 \<rparr>),
                 timers := timers st @ [(retryDelay (config st) * (retries c + 1), peerId)] \<rparr> \<and>
         handleConnectionError peerId err st = handleConnectionTimeout peerId st \<and>
         (retries c < maxRetries (config st) \<longrightarrow>
            timers (handleConnectionTimeout peerId st)
              = timers st @ [(retryDelay (config st) * (retries c + 1), peerId)] \<and>
            jsmap_get (connections (handleConnectionTimeout peerId st)) peerId
              = Some (c\<lparr> status := ''closed'', retries := retries c + 1 \<rparr>)) \<and>
         (maxRetries (config st) \<le> retries c \<longrightarrow>
            timers (handleConnectionTimeout peerId st) = timers st \<and>
            jsmap_get (connections (handleConnectionTimeout peerId st)) peerId
              = Some (c\<lparr> status := ''closed'' \<rparr>) \<and>
            \<not> shouldRetryConnection (handleConnectionTimeout peerId st) peerId) \<and>
         (\<forall>n. maxRetries (config st) - retries c \<le> n \<longrightarrow>
            \<not> shouldRetryConnection ((handleConnectionTimeout peerId ^^ n) st) peerId \<and>
            timers ((handleConnectionTimeout peerId ^^ n) st)
              = timers st @ map (\<lambda>i. (retryDelay (config st) * (retries c + i + 1), peerId))
                                [0..<maxRetries (config st) - retries c])"
proof -
  have a: "shouldRetryConnection st peerId = (retries c < maxRetries (config st))"
    using assms by (simp add: shouldRetryConnection_def)
  have b: "retryConnection st peerId
           = st\<lparr> connections :=
                   jsmap_set (connections st) peerId (c\<lparr> retries := retries c + 1 \<rparr>),
                 timers := timers st @ [(retryDelay (config st) * (retries c + 1), peerId)] \<rparr>"
    using assms by (simp add: retryConnection_def Let_def)
  have c: "handleConnectionError peerId err st = handleConnectionTimeout peerId st"
    by (simp add: handleConnectionError_def handleConnectionTimeout_def)
  note d = handleConnectionTimeout_self [OF assms]
  have e: "\<not> shouldRetryConnection (handleConnectionTimeout peerId st) peerId"
    if "maxRetries (config st) \<le> retries c"
    using that d(1) by (simp add: shouldRetryConnection_def handleConnectionTimeout_config)
  have f: "\<not> shouldRetryConnection ((handleConnectionTimeout peerId ^^ n) st) peerId \<and>
            timers ((handleConnectionTimeout peerId ^^ n) st)
              = timers st @ map (\<lambda>i. (retryDelay (config st) * (retries c + i + 1), peerId))
                                [0..<maxRetries (config st) - retries c]"
    if n: "maxRetries (config st) - retries c \<le> n" for n
  proof -
    from handleConnectionTimeout_repeated [OF assms, of n]
    obtain c' where g: "jsmap_get (connections ((handleConnectionTimeout peerId ^^ n) st)) peerId = Some c'"
      and r: "retries c' = min (retries c + n) (max (retries c) (maxRetries (config st)))"
      and cfg: "config ((handleConnectionTimeout peerId ^^ n) st) = config st"
      and t: "timers ((handleConnectionTimeout peerId ^^ n) st)
             = timers st @ map (\<lambda>i. (retryDelay (config st) * (retries c + i + 1), peerId))
                               [0..<min n (maxRetries (config st) - retries c)]"
      by blast
    have m: "min n (maxRetries (config st) - retries c) = maxRetries (config st) - retries c"
      using n by simp
    have "maxRetries (config st) \<le> retries c'"
      using r n by simp
    then show ?thesis
      using g cfg t by (simp add: shouldRetryConnection_def m)
  qed
  show ?thesis
    using a b c d e f by simp
qed

theorem retry_policy_linear_backoff_witness:
  "timers (handleConnectionTimeout alice_id (one_peer_state ''connected'' 2)) = [(3000, alice_id)] \<and>
   map_option retries
     (jsmap_get (connections (handleConnectionTimeout alice_id (one_peer_state ''connected'' 2)))
        alice_id) = Some 3 \<and>
   \<not> shouldRetryConnection (one_peer_state ''connected'' 3) alice_id \<and>
   timers (handleConnectionTimeout alice_id (one_peer_state ''connected'' 3)) = [] \<and>
   timers ((handleConnectionTimeout alice_id ^^ 5) (one_peer_state ''connected'' 0))
     = [(1000, alice_id), (2000, alice_id), (3000, alice_id)]"
proof -
  have h0: "jsmap_get (connections (one_peer_state ''connected'' 0)) alice_id
              = Some (example_connection alice_id ''connected'' 0)"
    by (simp add: one_peer_state_def jsmap_get_def)
  have h2: "jsmap_get (connections (one_peer_state ''connected'' 2)) alice_id
              = Some (example_connection alice_id ''connected'' 2)"
    by (simp add: one_peer_state_def jsmap_get_def)
  have h3: "jsmap_get (connections (one_peer_state ''connected'' 3)) alice_id
              = Some (example_connection alice_id ''connected'' 3)"
    by (simp add: one_peer_state_def jsmap_get_def)
  have u: "[0..<3] = [0, Suc 0, 2]"
    by (simp add: upt_rec)
  have five: "maxRetries (config (one_peer_state ''connected'' 0))
                - retries (example_connection alice_id ''connected'' 0) \<le> 5"
    by (simp add: one_peer_state_def initialized_state_def default_config_def
          example_connection_def)
  show ?thesis
    using retry_policy_linear_backoff [OF h2, of "''x''"]
      retry_policy_linear_backoff [OF h3, of "''x''"]
      retry_policy_linear_backoff [OF h0, of "''x''", THEN conjunct2, THEN conjunct2,
        THEN conjunct2, THEN conjunct2, THEN conjunct2, rule_format, OF five]
    by (simp add: one_peer_state_def initialized_state_def default_config_def
          example_connection_def u)
qed

lemma timed_out_closed [simp]: "\<not> timed_out now cfg (c\<lparr> status := ''closed'' \<rparr>)"
  "\<not> timed_out now cfg (c\<lparr> status := ''closed'', retries := n \<rparr>)"
  by (simp_all add: timed_out_def)

lemma monitor_loop_config: "config (monitor_loop now ks st) = config st"
  by (induction ks arbitrary: st) (simp_all add: handleConnectionTimeout_config split: option.splits)

lemma monitor_loop_effect:
  assumes "jsmap_get (connections st) q = Some c"
  shows "jsmap_get (connections (monitor_loop now ks st)) q
           = Some (if q \<in> set ks \<and> timed_out now (config st) c
                   then (if retries c < maxRetries (config st)
                         then c\<lparr> status := ''closed'', retries := retries c + 1 \<rparr>
                         else c\<lparr> status := ''closed'' \<rparr>)
                   else c) \<and>
         filter (\<lambda>t. snd t = q) (timers (monitor_loop now ks st))
           = filter (\<lambda>t. snd t = q) (timers st) @
             (if q \<in> set ks \<and> timed_out now (config st) c \<and> retries c < maxRetries (config st)
              then [(retryDelay (config st) * (retries c + 1), q)] else [])"
  using assms
proof (induction ks arbitrary: st c)
  case Nil
  then show ?case by simp
next
  case (Cons k ks)
  define st1 where "st1 = (case jsmap_get (connections st) k of
          None \<Rightarrow> st
        | Some connection \<Rightarrow>
            if timed_out now (config st) connection then handleConnectionTimeout k st
            else st)"
  have unfold: "monitor_loop now (k # ks) st = monitor_loop now ks st1"
    by (simp add: st1_def)
  have cfg: "config st1 = config st"
    by (simp add: st1_def handleConnectionTimeout_config split: option.splits)
  show ?case
  proof (cases "k = q")
    case True
    show ?thesis
    proof (cases "timed_out now (config st) c")
      case to: True
      define c' where "c' = (if retries c < maxRetries (config st)
                   then c\<lparr> status := ''closed'', retries := retries c + 1 \<rparr>
                   else c\<lparr> status := ''closed'' \<rparr>)"
      have st1: "st1 = handleConnectionTimeout q st"
        using True to Cons.prems by (simp add: st1_def)
      have g: "jsmap_get (connections st1) q = Some c'"
        unfolding st1 c'_def using handleConnectionTimeout_self(1) [OF Cons.prems] .
      have nto: "\<not> timed_out now (config st1) c'"
        by (simp add: c'_def)
      have t: "timers st1 = timers st @ (if retries c < maxRetries (config st)
                          then [(retryDelay (config st) * (retries c + 1), q)] else [])"
        unfolding st1 using handleConnectionTimeout_self(2) [OF Cons.prems] .
      from Cons.IH [OF g] nto
      have "jsmap_get (connections (monitor_loop now ks st1)) q = Some c'"
        and "filter (\<lambda>t. snd t = q) (timers (monitor_loop now ks st1))
               = filter (\<lambda>t. snd t = q) (timers st1)"
        by simp_all
      then show ?thesis
        unfolding unfold using True to t by (simp add: c'_def)
    next
      case nto: False
      have st1: "st1 = st"
        using True nto Cons.prems by (simp add: st1_def)
      from Cons.IH [of st c] Cons.prems nto show ?thesis
        unfolding unfold st1 by simp
    qed
  next
    case False
    then have qk: "q \<noteq> k" by simp
    have g: "jsmap_get (connections st1) q = Some c"
      using Cons.prems handleConnectionTimeout_other(1) [OF qk, of st]
      by (simp add: st1_def split: option.splits)
    have t: "filter (\<lambda>t. snd t = q) (timers st1) = filter (\<lambda>t. snd t = q) (timers st)"
      using handleConnectionTimeout_other(2) [OF qk, of st]
      by (simp add: st1_def split: option.splits)
    from Cons.IH [OF g] show ?thesis
      unfolding unfold using qk cfg t by simp
  qed
qed

text \<open>
  C7, as amended. For a connection that is \<^verbatim>\<open>connected\<close> and whose \<^verbatim>\<open>lastActive\<close> is
  older than \<^verbatim>\<open>connectionTimeout\<close>, one run of \<^verbatim>\<open>monitorConnections\<close> hands it to the
  retry policy once, whatever other connections the table holds. The policy closes it: its
  status leaves \<^verbatim>\<open>connected\<close> for \<^verbatim>\<open>closed\<close>. When \<^verbatim>\<open>retries < maxRetries\<close>, \<^verbatim>\<open>retries\<close>
  has grown by exactly 1 and exactly one attempt has been scheduled for the peer, after
  \<^verbatim>\<open>retryDelay * (retries + 1)\<close>; when \<^verbatim>\<open>retries\<close> has reached \<^verbatim>\<open>maxRetries\<close>, it is as
  before and nothing has been scheduled.
\<close>

theorem monitorConnections_times_out:
  assumes "jsmap_get (connections st) peerId = Some c"
    and "status c = ''connected''"
    and "lastActive c = Some t"
    and "now - t > connectionTimeout (config st)"
  shows "jsmap_get (connections (monitorConnections now st)) peerId
           = Some (c\<lparr> status := ''closed'',
                      retries := (if retries c < maxRetries (config st) then retries c + 1
                                  else retries c) \<rparr>) \<and>
         map_option status (jsmap_get (connections (monitorConnections now st)) peerId)
           \<noteq> Some ''connected'' \<and>
         filter (\<lambda>x. snd x = peerId) (timers (monitorConnections now st))
           = filter (\<lambda>x. snd x = peerId) (timers st) @
             (if retries c < maxRetries (config st)
              then [(retryDelay (config st) * (retries c + 1), peerId)] else [])"
proof -
  have to: "timed_out now (config st) c"
    using assms(2-4) by (simp add: timed_out_def)
  have mem: "peerId \<in> set (jsmap_keys (connections st))"
    using assms(1) by (rule jsmap_get_in_keys)
  show ?thesis
    using monitor_loop_effect [OF assms(1), of now "jsmap_keys (connections st)"] to mem
    by (simp add: monitorConnections_def)
qed

theorem monitorConnections_times_out_witness:
  "jsmap_get (connections (monitorConnections 12001 (one_peer_state ''connected'' 0))) alice_id
     = Some ((example_connection alice_id ''closed'' 1)) \<and>
   timers (monitorConnections 12001 (one_peer_state ''connected'' 0)) = [(1000, alice_id)]"
proof -
  have h1: "jsmap_get (connections (one_peer_state ''connected'' 0)) alice_id
              = Some (example_connection alice_id ''connected'' 0)"
    by (simp add: one_peer_state_def jsmap_get_def)
  have h2: "status (example_connection alice_id ''connected'' 0) = ''connected''"
    by (simp add: example_connection_def)
  have h3: "lastActive (example_connection alice_id ''connected'' 0) = Some 1000"
    by (simp add: example_connection_def)
  have h4: "12001 - 1000 > connectionTimeout (config (one_peer_state ''connected'' 0))"
    by (simp add: one_peer_state_def initialized_state_def default_config_def)
  have t0: "timers (one_peer_state ''connected'' 0) = []"
    by (simp add: one_peer_state_def initialized_state_def)
  have "filter (\<lambda>x. snd x = alice_id) (timers (monitorConnections 12001 (one_peer_state ''connected'' 0)))
          = timers (monitorConnections 12001 (one_peer_state ''connected'' 0))"
    by (simp add: monitorConnections_def one_peer_state_def initialized_state_def jsmap_keys_def
          jsmap_get_def timed_out_def example_connection_def default_config_def
          handleConnectionTimeout_def closeConnection_def shouldRetryConnection_def
          retryConnection_def Let_def)
  then show ?thesis
    using monitorConnections_times_out [OF h1 h2 h3 h4] t0
    by (simp add: one_peer_state_def initialized_state_def default_config_def
          example_connection_def)
qed

section \<open>Properties of connection establishment and broadcast\<close>

text \<open>
  C8. For a known peer, \<^verbatim>\<open>establishConnection\<close> returns normally whatever happens in the
  offer/answer exchange; when a step of the exchange fails, the state it returns is the
  one the retry policy (\<^verbatim>\<open>handleConnectionError\<close>) made of the state at the failure.
\<close>

theorem establishConnection_contains_failure:
  assumes "jsmap_get (peers st) peerId = Some p"
  shows "fst (establishConnection e now peerId st) = Inr () \<and>
         (\<forall>err st1. offer_answer_exchange e now peerId st = (Some err, st1) \<longrightarrow>
            establishConnection e now peerId st = (Inr (), handleConnectionError peerId err st1))"
  using assms by (simp add: establishConnection_def split: prod.splits option.splits)

theorem establishConnection_contains_failure_witness:
  "offer_answer_exchange failing_env 2000 alice_id (one_peer_state ''initializing'' 0)
     = (Some ''Connection error'', one_peer_state ''initializing'' 0) \<and>
   establishConnection failing_env 2000 alice_id (one_peer_state ''initializing'' 0)
     = (Inr (), (one_peer_state ''closed'' 1)\<lparr> timers := [(1000, alice_id)] \<rparr>)"
proof -
  have h: "jsmap_get (peers (one_peer_state ''initializing'' 0)) alice_id = Some alice"
    by (simp add: one_peer_state_def jsmap_get_def)
  have x: "offer_answer_exchange failing_env 2000 alice_id (one_peer_state ''initializing'' 0)
     = (Some ''Connection error'', one_peer_state ''initializing'' 0)"
    by (simp add: offer_answer_exchange_def failing_env_def)
  have r: "handleConnectionError alice_id ''Connection error'' (one_peer_state ''initializing'' 0)
             = (one_peer_state ''closed'' 1)\<lparr> timers := [(1000, alice_id)] \<rparr>"
    by (simp add: handleConnectionError_def closeConnection_def shouldRetryConnection_def
          retryConnection_def one_peer_state_def initialized_state_def default_config_def
          example_connection_def jsmap_get_def Let_def)
  show ?thesis
    using establishConnection_contains_failure [OF h, of failing_env 2000] x r by simp
qed

lemma broadcast_loop_sent:
  "sent (broadcast_loop e message cs st)
     = sent st @ map (\<lambda>c. (fst c, message)) (filter (\<lambda>c. status (snd c) = ''connected'') cs)"
  by (induction cs arbitrary: st) (auto simp: Let_def split: option.splits)

lemma broadcast_loop_connections:
  "connections (broadcast_loop e message cs st) = connections st"
  by (induction cs arbitrary: st) (auto simp: Let_def split: option.splits)

text \<open>
  C9. \<^verbatim>\<open>broadcast(message)\<close> calls \<^verbatim>\<open>sendToPeer\<close> once for each entry of the connection
  table whose status is \<^verbatim>\<open>connected\<close>, in table order, and for no other peer, whatever
  the sends answer: a failing send stops nothing. The connection table is unchanged.
\<close>

theorem broadcast_reaches_connected_peers:
  "sent (broadcast e message st)
     = sent st @ map (\<lambda>c. (fst c, message))
                   (filter (\<lambda>c. status (snd c) = ''connected'') (connections st)) \<and>
   connections (broadcast e message st) = connections st"
  by (simp add: broadcast_def broadcast_loop_sent broadcast_loop_connections)

theorem broadcast_reaches_connected_peers_witness:
  "sendToPeer flaky_env ''p1'' resource_update = Some ''send failed'' \<and>
   sent (broadcast flaky_env resource_update three_connections)
     = [(''p1'', resource_update), (''p3'', resource_update)]"
  using broadcast_reaches_connected_peers [of flaky_env resource_update three_connections]
  by (simp add: flaky_env_def three_connections_def initialized_state_def example_connection_def)

section \<open>Consistent states\<close>

lemma jsmap_keys_set:
  "jsmap_keys (jsmap_set m k v)
     = (if k \<in> set (jsmap_keys m) then jsmap_keys m else jsmap_keys m @ [k])"
  by (induction m) (force simp: jsmap_keys_def)+

lemma jsmap_size_le:
  assumes "distinct (jsmap_keys m)" and "set (jsmap_keys m) \<subseteq> set (jsmap_keys m')"
  shows "jsmap_size m \<le> jsmap_size m'"
proof -
  have "jsmap_size m = card (set (jsmap_keys m))"
    using distinct_card [OF assms(1)] by (simp add: jsmap_size_def jsmap_keys_def)
  also have "\<dots> \<le> card (set (jsmap_keys m'))"
    using assms(2) by (intro card_mono) simp_all
  also have "\<dots> \<le> jsmap_size m'"
    using card_length [of "jsmap_keys m'"] by (simp add: jsmap_size_def jsmap_keys_def)
  finally show ?thesis .
qed

lemma map_of_insert_or_replace:
  "map_of (insert_or_replace tbl k row) k = Some row"
  by (simp add: insert_or_replace_def map_add_Some_iff map_of_eq_None_iff image_iff)

lemma ids_insert_or_replace:
  "fst ` set (insert_or_replace tbl k row) = insert k (fst ` set tbl)"
  by (auto simp: insert_or_replace_def image_iff)

lemma keeps_shape_refl: "keeps_shape st st"
  by (simp add: keeps_shape_def)

lemma keeps_shape_trans: "keeps_shape a b \<Longrightarrow> keeps_shape b c \<Longrightarrow> keeps_shape a c"
  by (simp add: keeps_shape_def)

lemma keeps_shape_consistent: "keeps_shape st st' \<Longrightarrow> consistent st \<Longrightarrow> consistent st'"
  by (auto simp: keeps_shape_def consistent_def)

lemma keeps_shape_closeConnection: "keeps_shape st (closeConnection q st)"
  by (auto simp: keeps_shape_def closeConnection_def persisted_ids_def jsmap_keys_set
        split: option.splits dest: jsmap_get_in_keys)

lemma keeps_shape_retryConnection: "keeps_shape st (retryConnection st q)"
  by (auto simp: keeps_shape_def retryConnection_def persisted_ids_def jsmap_keys_set Let_def
        split: option.splits dest: jsmap_get_in_keys)

lemma keeps_shape_handleConnectionTimeout: "keeps_shape st (handleConnectionTimeout q st)"
  using keeps_shape_closeConnection [of st q]
    keeps_shape_retryConnection [of "closeConnection q st" q]
  by (auto simp: handleConnectionTimeout_def Let_def intro: keeps_shape_trans)

lemma keeps_shape_handleConnectionError: "keeps_shape st (handleConnectionError q err st)"
  using keeps_shape_handleConnectionTimeout [of st q]
  by (simp add: handleConnectionError_def handleConnectionTimeout_def)

lemma keeps_shape_updateConnectionStatus:
  "keeps_shape st (snd (updateConnectionStatus now q s st))"
  by (auto simp: keeps_shape_def updateConnectionStatus_def persisted_ids_def jsmap_keys_set
        Let_def split: option.splits dest: jsmap_get_in_keys)

lemma keeps_shape_sent: "keeps_shape st (st\<lparr> sent := x \<rparr>)"
  by (simp add: keeps_shape_def persisted_ids_def)

lemma keeps_shape_offer_answer_exchange:
  "keeps_shape st (snd (offer_answer_exchange e now q st))"
proof -
  have "keeps_shape st (snd (updateConnectionStatus now q s (st\<lparr> sent := x \<rparr>)))" for s x
    using keeps_shape_sent keeps_shape_updateConnectionStatus by (rule keeps_shape_trans)
  then show ?thesis
    by (simp add: offer_answer_exchange_def Let_def keeps_shape_refl keeps_shape_sent
          split: sum.splits option.splits)
qed

lemma keeps_shape_establishConnection:
  "keeps_shape st (snd (establishConnection e now q st))"
proof (cases "jsmap_get (peers st) q")
  case None
  then show ?thesis by (simp add: establishConnection_def keeps_shape_refl)
next
  case (Some p)
  obtain r st1 where x: "offer_answer_exchange e now q st = (r, st1)"
    by (cases "offer_answer_exchange e now q st")
  have s1: "keeps_shape st st1"
    using keeps_shape_offer_answer_exchange [of st e now q] x by simp
  show ?thesis
    using Some x s1 keeps_shape_handleConnectionError [of st1 q]
    by (auto simp: establishConnection_def split: option.splits intro: keeps_shape_trans)
qed

lemma keeps_shape_monitor_loop: "keeps_shape st (monitor_loop now ks st)"
proof (induction ks arbitrary: st)
  case Nil
  then show ?case by (simp add: keeps_shape_refl)
next
  case (Cons k ks)
  define st1 where "st1 = (case jsmap_get (connections st) k of
          None \<Rightarrow> st
        | Some connection \<Rightarrow>
            if timed_out now (config st) connection then handleConnectionTimeout k st
            else st)"
  have "keeps_shape st st1"
    by (simp add: st1_def keeps_shape_refl keeps_shape_handleConnectionTimeout split: option.splits)
  moreover have "keeps_shape st1 (monitor_loop now ks st1)"
    by (rule Cons.IH)
  ultimately show ?case
    unfolding monitor_loop.simps st1_def [symmetric] by (rule keeps_shape_trans)
qed

lemma keeps_shape_monitorConnections: "keeps_shape st (monitorConnections now st)"
  by (simp add: monitorConnections_def keeps_shape_monitor_loop)

lemma keeps_shape_broadcast_loop: "keeps_shape st (broadcast_loop e message cs st)"
proof (induction cs arbitrary: st)
  case Nil
  then show ?case by (simp add: keeps_shape_refl)
next
  case (Cons c cs)
  obtain k v where c: "c = (k, v)" by (cases c)
  have "keeps_shape st (st\<lparr> sent := sent st @ [(k, message)] \<rparr>)"
    by (rule keeps_shape_sent)
  then show ?case
    using Cons.IH [of "st\<lparr> sent := sent st @ [(k, message)] \<rparr>"] Cons.IH [of st]
    by (auto simp: c Let_def split: option.splits intro: keeps_shape_trans)
qed

lemma keeps_shape_broadcast: "keeps_shape st (broadcast e message st)"
  by (simp add: broadcast_def keeps_shape_broadcast_loop)

lemma consistent_initialized_state: "consistent initialized_state"
  by (simp add: consistent_def initialized_state_def jsmap_keys_def persisted_ids_def
        empty_database_def default_limits_def)

lemma consistent_initializeConnection_begin:
  assumes "consistent st"
  shows "consistent (snd (initializeConnection_begin now uuid q st))"
proof (cases "fst (initializeConnection_begin now uuid q st)")
  case (Inl err)
  then have "snd (initializeConnection_begin now uuid q st) = st"
    by (auto simp: initializeConnection_begin_def Let_def split: if_splits option.splits)
  then show ?thesis using assms by simp
next
  case (Inr c)
  then obtain d where d: "db st = Some d" and fk: "map_of (peers_table d) q \<noteq> None"
    by (auto simp: initializeConnection_begin_def Let_def split: if_splits option.splits)
  from fk have "q \<in> fst ` set (peers_table d)"
    by (simp add: map_of_eq_None_iff)
  then have q: "q \<in> set (jsmap_keys (peers st))"
    using assms d by (simp add: consistent_def persisted_ids_def)
  show ?thesis
    using Inr d fk assms q
    by (auto simp: initializeConnection_begin_def Let_def consistent_def persisted_ids_def
          jsmap_keys_set split: if_splits)
qed

lemma consistent_initializeConnection:
  assumes "consistent st"
  shows "consistent (snd (initializeConnection e now uuid q st))"
proof -
  obtain r st1 where b: "initializeConnection_begin now uuid q st = (r, st1)"
    by (cases "initializeConnection_begin now uuid q st")
  have c1: "consistent st1"
    using consistent_initializeConnection_begin [OF assms, of now uuid q] b by simp
  have c2: "consistent (snd (establishConnection e now q st1))"
    using keeps_shape_establishConnection c1 by (rule keeps_shape_consistent)
  show ?thesis
    using b c1 c2
    by (auto simp: initializeConnection_def split: sum.splits prod.splits option.splits)
qed

lemma consistent_addPeer:
  assumes "consistent st"
  shows "consistent (snd (addPeer e now uuid p st))"
proof (cases "jsmap_size (peers st) \<ge> maxPeers (limits st) \<or> db st = None")
  case True
  then have "snd (addPeer e now uuid p st) = st"
    by (auto simp: addPeer_def Let_def)
  then show ?thesis using assms by simp
next
  case False
  then obtain d where d: "db st = Some d" and room: "jsmap_size (peers st) < maxPeers (limits st)"
    by auto
  define st2 where "st2 = st\<lparr> db := Some (d\<lparr> peers_table :=
        insert_or_replace (peers_table d) (generatePeerId e p)
          \<lparr> row_name = peer_name p, row_publicKey = publicKey p,
            row_lastSeen = now, row_trustScore = 1, row_status = ''new'',
            row_metadata = (case metadata p of None \<Rightarrow> ''{}'' | Some j \<Rightarrow> j) \<rparr> \<rparr>),
      peers := jsmap_set (peers st) (generatePeerId e p) p \<rparr>"
  have c2: "consistent st2"
    using assms d
    by (auto simp: st2_def consistent_def persisted_ids_def jsmap_keys_set ids_insert_or_replace)
  have c3: "consistent (snd (initializeConnection_begin now uuid (generatePeerId e p) st2))"
    using c2 by (rule consistent_initializeConnection_begin)
  have sp: "consistent (s\<lparr> spawned := x \<rparr>) = consistent s" for s x
    by (simp add: consistent_def persisted_ids_def)
  have "snd (addPeer e now uuid p st)
          = (case initializeConnection_begin now uuid (generatePeerId e p) st2 of
               (Inl err, s) \<Rightarrow> s
             | (Inr connection, s) \<Rightarrow> s\<lparr> spawned := spawned s @ [generatePeerId e p] \<rparr>)"
    using d room by (simp add: addPeer_def Let_def st2_def)
  then show ?thesis
    using c3 by (auto simp: sp split: prod.splits sum.splits)
qed

lemma consistent_alice_connected: "consistent alice_connected"
  unfolding alice_connected_def
  by (intro keeps_shape_consistent [OF keeps_shape_establishConnection] consistent_addPeer
        consistent_initialized_state)

text \<open>
  C10. In a consistent state, for a peer \<open>p0\<close> registered under its id, \<^verbatim>\<open>addPeer\<close> with a
  descriptor of the same \<^verbatim>\<open>publicKey\<close>, under the peer limit, returns that id, leaves the
  number of known peers unchanged, and leaves exactly one row for the id in the table
  \<^verbatim>\<open>peers\<close>, the new one, with \<^verbatim>\<open>trustScore\<close> 1.0 and \<^verbatim>\<open>status\<close> \<^verbatim>\<open>new\<close>; the peer's
  connection is then a fresh one (\<^verbatim>\<open>initializing\<close>, no retries, the new connection id),
  and its establishment has been started. The guard of \<^verbatim>\<open>initializeConnection\<close> cannot
  refuse it: the connections are those of registered peers, fewer than \<^verbatim>\<open>maxPeers\<close>.
\<close>

theorem addPeer_again_same_key:
  assumes "consistent st"
    and "jsmap_get (peers st) (generatePeerId e p0) = Some p0"
    and "publicKey p = publicKey p0"
    and "jsmap_size (peers st) < maxPeers (limits st)"
  shows "fst (addPeer e now uuid p st) = Inr (generatePeerId e p0) \<and>
         jsmap_size (peers (snd (addPeer e now uuid p st))) = jsmap_size (peers st) \<and>
         jsmap_get (peers (snd (addPeer e now uuid p st))) (generatePeerId e p0) = Some p \<and>
         map_option (\<lambda>d'. filter (\<lambda>r. fst r = generatePeerId e p0) (peers_table d'))
             (db (snd (addPeer e now uuid p st)))
           = Some [(generatePeerId e p0,
                    \<lparr> row_name = peer_name p, row_publicKey = publicKey p, row_lastSeen = now,
                      row_trustScore = 1, row_status = ''new'',
                      row_metadata = (case metadata p of None \<Rightarrow> ''{}'' | Some j \<Rightarrow> j) \<rparr>)] \<and>
         jsmap_get (connections (snd (addPeer e now uuid p st))) (generatePeerId e p0)
           = Some \<lparr> conn_id = uuid, conn_peerId = generatePeerId e p0,
                    status = ''initializing'', established = now, lastActive = None,
                    retries = 0 \<rparr> \<and>
         spawned (snd (addPeer e now uuid p st)) = spawned st @ [generatePeerId e p0]"
proof -
  have same: "generatePeerId e p = generatePeerId e p0"
    using assms(3) by (simp add: generatePeerId_def)
  have sz: "jsmap_size (jsmap_set (peers st) (generatePeerId e p0) p) = jsmap_size (peers st)"
    using assms(2) by (rule jsmap_size_set_present)
  have reg: "generatePeerId e p0 \<in> set (jsmap_keys (peers st))"
    using assms(2) by (rule jsmap_get_in_keys)
  then have "generatePeerId e p0 \<in> persisted_ids st"
    using assms(1) by (simp add: consistent_def)
  then obtain d where d: "db st = Some d"
    by (auto simp: persisted_ids_def split: option.splits)
  have "distinct (jsmap_keys (connections st))"
    and "set (jsmap_keys (connections st)) \<subseteq> set (jsmap_keys (peers st))"
    using assms(1) by (auto simp: consistent_def)
  then have "jsmap_size (connections st) \<le> jsmap_size (peers st)"
    by (rule jsmap_size_le)
  then have room: "jsmap_size (connections st) < maxConnections (limits st)"
    using assms(1,4) by (simp add: consistent_def)
  show ?thesis
    using assms(4) d room sz
    by (simp add: addPeer_def initializeConnection_begin_def Let_def same jsmap_get_set
          insert_or_replace_row map_of_insert_or_replace)
qed

theorem addPeer_again_same_key_witness:
  "consistent alice_connected \<and>
   jsmap_get (peers alice_connected) (generatePeerId example_env alice) = Some alice \<and>
   jsmap_size (peers alice_connected) < maxPeers (limits alice_connected) \<and>
   jsmap_get (connections alice_connected) alice_id
     = Some \<lparr> conn_id = ''uuid-a'', conn_peerId = alice_id, status = ''connected'',
              established = 1000, lastActive = Some 2000, retries = 0 \<rparr> \<and>
   fst (addPeer example_env 5000 ''uuid-b'' alice alice_connected) = Inr alice_id \<and>
   jsmap_size (peers (snd (addPeer example_env 5000 ''uuid-b'' alice alice_connected))) = 1 \<and>
   jsmap_get (connections (snd (addPeer example_env 5000 ''uuid-b'' alice alice_connected)))
       alice_id
     = Some \<lparr> conn_id = ''uuid-b'', conn_peerId = alice_id, status = ''initializing'',
              established = 5000, lastActive = None, retries = 0 \<rparr>"
proof -
  have h2: "jsmap_get (peers alice_connected) (generatePeerId example_env alice) = Some alice"
    by (simp add: alice_id_digest alice_connected_fields jsmap_get_def)
  have h4: "jsmap_size (peers alice_connected) < maxPeers (limits alice_connected)"
    by (simp add: alice_connected_fields default_limits_def jsmap_size_def)
  have sz: "jsmap_size (peers alice_connected) = 1"
    by (simp add: alice_connected_fields jsmap_size_def)
  have c: "jsmap_get (connections alice_connected) alice_id
     = Some \<lparr> conn_id = ''uuid-a'', conn_peerId = alice_id, status = ''connected'',
              established = 1000, lastActive = Some 2000, retries = 0 \<rparr>"
    by (simp add: alice_connected_fields jsmap_get_def)
  show ?thesis
    using addPeer_again_same_key [OF consistent_alice_connected h2 refl h4, of 5000 "''uuid-b''"]
      consistent_alice_connected h2 h4 sz c
    by (simp add: alice_id_digest)
qed

section \<open>Retries used up\<close>

lemma alice_connected_more:
  "config alice_connected = default_config" "timers alice_connected = []"
proof -
  have a: "config (snd (addPeer example_env 1000 ''uuid-a'' alice initialized_state)) = default_config"
    "timers (snd (addPeer example_env 1000 ''uuid-a'' alice initialized_state)) = []"
    by (simp_all add: addPeer_def Let_def initialized_state_def default_limits_def jsmap_size_def
          initializeConnection_begin_def empty_database_def split: prod.splits)
  have e: "config (snd (establishConnection e now q st)) = config st" for e now q st
    using keeps_shape_establishConnection [of st e now q] by (simp add: keeps_shape_def)
  have u: "timers (snd (updateConnectionStatus now q s st)) = timers st" for now q s st
    by (simp add: updateConnectionStatus_def Let_def split: option.splits)
  have x: "timers (snd (offer_answer_exchange example_env now q st)) = timers st" for now q st
    by (simp add: offer_answer_exchange_def example_env_def Let_def u)
  have xf: "fst (offer_answer_exchange example_env now alice_id st) = None" if "db st \<noteq> None" for now st
    using that by (auto simp: offer_answer_exchange_def example_env_def Let_def
          updateConnectionStatus_def split: option.splits)
  show "config alice_connected = default_config"
    by (simp add: alice_connected_def e a)
  have "db (snd (addPeer example_env 1000 ''uuid-a'' alice initialized_state)) \<noteq> None"
    by (simp add: addPeer_def Let_def initialized_state_def default_limits_def jsmap_size_def
          initializeConnection_begin_def empty_database_def split: prod.splits)
  from xf [OF this, of 2000] show "timers alice_connected = []"
    using x [of 2000 alice_id "snd (addPeer example_env 1000 ''uuid-a'' alice initialized_state)"]
    by (auto simp: alice_connected_def establishConnection_def a split: option.splits prod.splits)
qed

lemma monitor_single_connection:
  assumes "connections st = [(q, c)]" and "status c = ''connected''"
    and "lastActive c = Some t" and "now - t > connectionTimeout (config st)"
  shows "connections (monitorConnections now st)
           = [(q, c\<lparr> status := ''closed'',
                      retries := (if retries c < maxRetries (config st) then retries c + 1
                                  else retries c) \<rparr>)]"
    and "timers (monitorConnections now st)
           = timers st @ (if retries c < maxRetries (config st)
                          then [(retryDelay (config st) * (retries c + 1), q)] else [])"
    and "peers (monitorConnections now st) = peers st"
    and "config (monitorConnections now st) = config st"
    and "db (monitorConnections now st) = db st"
  using assms
  by (simp_all add: monitorConnections_def jsmap_keys_def jsmap_get_def timed_out_def
        handleConnectionTimeout_def closeConnection_def shouldRetryConnection_def
        retryConnection_def Let_def)

lemma establish_single_connection:
  assumes "jsmap_get (peers st) q = Some p" and "connections st = [(q, c)]"
    and "db st \<noteq> None"
  shows "connections (snd (establishConnection example_env now q st))
           = [(q, c\<lparr> status := ''connected'', lastActive := Some now \<rparr>)]"
    and "timers (snd (establishConnection example_env now q st)) = timers st"
    and "peers (snd (establishConnection example_env now q st)) = peers st"
    and "config (snd (establishConnection example_env now q st)) = config st"
    and "db (snd (establishConnection example_env now q st)) \<noteq> None"
  using assms
  by (auto simp: establishConnection_def offer_answer_exchange_def example_env_def Let_def
        updateConnectionStatus_def jsmap_get_def)

lemma exhausted_state_fields:
  "connections exhausted_state
     = [(alice_id, \<lparr> conn_id = ''uuid-a'', conn_peerId = alice_id, status = ''connected'',
                     established = 1000, lastActive = Some 41000, retries = 3 \<rparr>)]"
  "timers exhausted_state = [(1000, alice_id), (2000, alice_id), (3000, alice_id)]"
  "config exhausted_state = default_config"
proof -
  have p: "jsmap_get (peers alice_connected) alice_id = Some alice"
    by (simp add: alice_connected_fields jsmap_get_def)
  define s1 where "s1 = monitorConnections 13000 alice_connected"
  define s2 where "s2 = snd (establishConnection example_env 14000 alice_id s1)"
  define s3 where "s3 = monitorConnections 25000 s2"
  define s4 where "s4 = snd (establishConnection example_env 27000 alice_id s3)"
  define s5 where "s5 = monitorConnections 38000 s4"
  have ex: "exhausted_state = snd (establishConnection example_env 41000 alice_id s5)"
    by (simp add: exhausted_state_def s1_def s2_def s3_def s4_def s5_def)
  note m1 = monitor_single_connection [of alice_connected alice_id _ 2000 13000, folded s1_def,
      OF alice_connected_fields(2)]
  have f1: "connections s1
      = [(alice_id, \<lparr> conn_id = ''uuid-a'', conn_peerId = alice_id, status = ''closed'',
                     established = 1000, lastActive = Some 2000, retries = 1 \<rparr>)]"
    "timers s1 = [(1000, alice_id)]" "peers s1 = peers alice_connected"
    "config s1 = default_config" "db s1 \<noteq> None"
    using m1 alice_connected_fields(5)
    by (simp_all add: alice_connected_more default_config_def)
  have p1: "jsmap_get (peers s1) alice_id = Some alice" using p f1(3) by simp
  note e2 = establish_single_connection [OF p1 f1(1) f1(5), of 14000, folded s2_def]
  have f2: "connections s2
      = [(alice_id, \<lparr> conn_id = ''uuid-a'', conn_peerId = alice_id, status = ''connected'',
                     established = 1000, lastActive = Some 14000, retries = 1 \<rparr>)]"
    "timers s2 = [(1000, alice_id)]" "peers s2 = peers alice_connected"
    "config s2 = default_config" "db s2 \<noteq> None"
    using e2 f1 by simp_all
  note m3 = monitor_single_connection [of s2 alice_id _ 14000 25000, folded s3_def, OF f2(1)]
  have f3: "connections s3
      = [(alice_id, \<lparr> conn_id = ''uuid-a'', conn_peerId = alice_id, status = ''closed'',
                     established = 1000, lastActive = Some 14000, retries = 2 \<rparr>)]"
    "timers s3 = [(1000, alice_id), (2000, alice_id)]" "peers s3 = peers alice_connected"
    "config s3 = default_config" "db s3 \<noteq> None"
    using m3 f2 by (simp_all add: default_config_def)
  have p3: "jsmap_get (peers s3) alice_id = Some alice" using p f3(3) by simp
  note e4 = establish_single_connection [OF p3 f3(1) f3(5), of 27000, folded s4_def]
  have f4: "connections s4
      = [(alice_id, \<lparr> conn_id = ''uuid-a'', conn_peerId = alice_id, status = ''connected'',
                     established = 1000, lastActive = Some 27000, retries = 2 \<rparr>)]"
    "timers s4 = [(1000, alice_id), (2000, alice_id)]" "peers s4 = peers alice_connected"
    "config s4 = default_config" "db s4 \<noteq> None"
    using e4 f3 by simp_all
  note m5 = monitor_single_connection [of s4 alice_id _ 27000 38000, folded s5_def, OF f4(1)]
  have f5: "connections s5
      = [(alice_id, \<lparr> conn_id = ''uuid-a'', conn_peerId = alice_id, status = ''closed'',
                     established = 1000, lastActive = Some 27000, retries = 3 \<rparr>)]"
    "timers s5 = [(1000, alice_id), (2000, alice_id), (3000, alice_id)]"
    "peers s5 = peers alice_connected"
    "config s5 = default_config" "db s5 \<noteq> None"
    using m5 f4 by (simp_all add: default_config_def)
  have p5: "jsmap_get (peers s5) alice_id = Some alice" using p f5(3) by simp
  note e6 = establish_single_connection [OF p5 f5(1) f5(5), of 41000, folded ex]
  show "connections exhausted_state
     = [(alice_id, \<lparr> conn_id = ''uuid-a'', conn_peerId = alice_id, status = ''connected'',
                     established = 1000, lastActive = Some 41000, retries = 3 \<rparr>)]"
    "timers exhausted_state = [(1000, alice_id), (2000, alice_id), (3000, alice_id)]"
    "config exhausted_state = default_config"
    using e6 f5 by simp_all
qed

text \<open>
  C7 as stated fails once the retries are used up. After the run above the connection is
  \<^verbatim>\<open>connected\<close>, its \<^verbatim>\<open>lastActive\<close> is older than the timeout, and \<^verbatim>\<open>retries\<close> is 3, the
  default \<^verbatim>\<open>maxRetries\<close>. One run of the monitor leaves it \<^verbatim>\<open>closed\<close>, not
  \<^verbatim>\<open>timed-out\<close>, with \<^verbatim>\<open>retries\<close> still 3: no retry has incremented it, and no attempt
  has been scheduled.
\<close>

theorem monitorConnections_retries_exhausted:
  "jsmap_get (connections exhausted_state) alice_id
     = Some \<lparr> conn_id = ''uuid-a'', conn_peerId = alice_id, status = ''connected'',
              established = 1000, lastActive = Some 41000, retries = 3 \<rparr> \<and>
   52000 - 41000 > connectionTimeout (config exhausted_state) \<and>
   jsmap_get (connections (monitorConnections 52000 exhausted_state)) alice_id
     = Some \<lparr> conn_id = ''uuid-a'', conn_peerId = alice_id, status = ''closed'',
              established = 1000, lastActive = Some 41000, retries = 3 \<rparr> \<and>
   timers (monitorConnections 52000 exhausted_state) = timers exhausted_state"
proof -
  have t: "(52000::int) - 41000 > connectionTimeout (config exhausted_state)"
    by (simp add: exhausted_state_fields default_config_def)
  note m = monitor_single_connection [of exhausted_state alice_id _ 41000 52000,
      OF exhausted_state_fields(1)]
  show ?thesis
    using m(1,2) t
    by (simp add: exhausted_state_fields default_config_def jsmap_get_def)
qed

end
